theory Spec2Isabelle
  imports Complex_Main "HOL-Library.AList" "HOL-Library.Char_ord" "HOL-Library.List_Lexorder"
begin

section \<open>Python values\<close>

text \<open>
  The server handles loosely typed JSON: tool arguments and upstream response bodies.
  A value as \<^verbatim>\<open>json.loads\<close> delivers it: \<^verbatim>\<open>None\<close>, a bool, an int, a float, a str, a
  list or a dict (an association list in insertion order; the keys of a parsed object are
  distinct). A str is a list of code points below 256, compared code point by code point
  as Python does. A float is a finite double, written by its exact value.
\<close>

datatype json =
    JNull
  | JBool bool
  | JInt int
  | JFloat real
  | JStr string
  | JArr "json list"
  | JObj "(string \<times> json) list"

text \<open>The exceptions the code can raise; \<open>ValueError\<close> carries its message.\<close>

datatype py_error = ValueError string | TypeError | AttributeError | KeyError | IndexError

definition bindE :: "py_error + 'a \<Rightarrow> ('a \<Rightarrow> py_error + 'b) \<Rightarrow> py_error + 'b" where
  "bindE r f = (case r of Inl e \<Rightarrow> Inl e | Inr x \<Rightarrow> f x)"

text \<open>A list comprehension whose body may raise: the first exception ends it.\<close>

fun mapE :: "('a \<Rightarrow> py_error + 'b) \<Rightarrow> 'a list \<Rightarrow> py_error + 'b list" where
  "mapE f [] = Inr []"
| "mapE f (x # xs) = bindE (f x) (\<lambda>y. bindE (mapE f xs) (\<lambda>ys. Inr (y # ys)))"

text \<open>Truth value testing (\<^verbatim>\<open>if x\<close>, \<^verbatim>\<open>not x\<close>).\<close>

fun truthy :: "json \<Rightarrow> bool" where
  "truthy JNull = False"
| "truthy (JBool b) = b"
| "truthy (JInt i) = (i \<noteq> 0)"
| "truthy (JFloat x) = (x \<noteq> 0)"
| "truthy (JStr s) = (s \<noteq> [])"
| "truthy (JArr xs) = (xs \<noteq> [])"
| "truthy (JObj kvs) = (kvs \<noteq> [])"

text \<open>\<^verbatim>\<open>d.get(k, default)\<close> on a dict.\<close>

definition dict_get :: "(string \<times> json) list \<Rightarrow> string \<Rightarrow> json \<Rightarrow> json" where
  "dict_get kvs k d = (case map_of kvs k of None \<Rightarrow> d | Some v \<Rightarrow> v)"

text \<open>\<^verbatim>\<open>x.get(k, default)\<close> on any value: only a dict has the method.\<close>

fun py_get :: "json \<Rightarrow> string \<Rightarrow> json \<Rightarrow> py_error + json" where
  "py_get (JObj kvs) k d = Inr (dict_get kvs k d)"
| "py_get _ k d = Inl AttributeError"

text \<open>Iteration (\<^verbatim>\<open>for y in x\<close>): a list gives its elements, a dict its keys, a str its
  characters; nothing else is iterable.\<close>

fun py_iter :: "json \<Rightarrow> py_error + json list" where
  "py_iter (JArr xs) = Inr xs"
| "py_iter (JObj kvs) = Inr (map (\<lambda>kv. JStr (fst kv)) kvs)"
| "py_iter (JStr s) = Inr (map (\<lambda>c. JStr [c]) s)"
| "py_iter _ = Inl TypeError"

text \<open>\<^verbatim>\<open>x[0]\<close>.\<close>

fun py_index0 :: "json \<Rightarrow> py_error + json" where
  "py_index0 (JArr []) = Inl IndexError"
| "py_index0 (JArr (x # xs)) = Inr x"
| "py_index0 (JStr []) = Inl IndexError"
| "py_index0 (JStr (c # cs)) = Inr (JStr [c])"
| "py_index0 (JObj kvs) = Inl KeyError"
| "py_index0 _ = Inl TypeError"

text \<open>\<^verbatim>\<open>x["key"]\<close> with a str key.\<close>

fun py_item :: "json \<Rightarrow> string \<Rightarrow> py_error + json" where
  "py_item (JObj kvs) k = (case map_of kvs k of None \<Rightarrow> Inl KeyError | Some v \<Rightarrow> Inr v)"
| "py_item _ k = Inl TypeError"

text \<open>\<^verbatim>\<open>x[:n]\<close>: a list or a str is cut, anything else raises (a dict with \<open>TypeError\<close>
  up to Python 3.11).\<close>

fun py_slice :: "nat \<Rightarrow> json \<Rightarrow> py_error + json" where
  "py_slice n (JArr xs) = Inr (JArr (take n xs))"
| "py_slice n (JStr s) = Inr (JStr (take n s))"
| "py_slice n _ = Inl TypeError"

fun is_infix :: "string \<Rightarrow> string \<Rightarrow> bool" where
  "is_infix p [] = (p = [])"
| "is_infix p (c # cs) = (take (length p) (c # cs) = p \<or> is_infix p cs)"

text \<open>\<^verbatim>\<open>"key" in x\<close>.\<close>

fun py_contains :: "string \<Rightarrow> json \<Rightarrow> py_error + bool" where
  "py_contains k (JObj kvs) = Inr (map_of kvs k \<noteq> None)"
| "py_contains k (JArr xs) = Inr (JStr k \<in> set xs)"
| "py_contains k (JStr s) = Inr (is_infix k s)"
| "py_contains k _ = Inl TypeError"

subsection \<open>Strings\<close>

text \<open>\<^verbatim>\<open>str.isspace\<close> on a code point below 256.\<close>

definition py_isspace :: "char \<Rightarrow> bool" where
  "py_isspace c = (let n = (of_char c :: nat) in
     (9 \<le> n \<and> n \<le> 13) \<or> (28 \<le> n \<and> n \<le> 32) \<or> n = 133 \<or> n = 160)"

definition strip :: "string \<Rightarrow> string" where
  "strip s = rev (dropWhile py_isspace (rev (dropWhile py_isspace s)))"

text \<open>\<^verbatim>\<open>x.strip()\<close> on any value: only a str has the method.\<close>

fun py_strip :: "json \<Rightarrow> py_error + string" where
  "py_strip (JStr s) = Inr (strip s)"
| "py_strip _ = Inl AttributeError"

text \<open>\<^verbatim>\<open>s.split(c)\<close> with a one-character separator.\<close>

fun split_on :: "char \<Rightarrow> string \<Rightarrow> string list" where
  "split_on c [] = [[]]"
| "split_on c (x # xs) =
     (if x = c then [] # split_on c xs
      else (case split_on c xs of [] \<Rightarrow> [[x]] | w # ws \<Rightarrow> (x # w) # ws))"

text \<open>\<^verbatim>\<open>sep.join(parts)\<close> on strs.\<close>

fun join :: "string \<Rightarrow> string list \<Rightarrow> string" where
  "join sep [] = []"
| "join sep [s] = s"
| "join sep (s # t # ss) = s @ sep @ join sep (t # ss)"

fun as_str :: "json \<Rightarrow> py_error + string" where
  "as_str (JStr s) = Inr s"
| "as_str _ = Inl TypeError"

text \<open>\<^verbatim>\<open>sep.join(xs)\<close> on a Python list of values: every item must be a str.\<close>

definition join_values :: "string \<Rightarrow> json list \<Rightarrow> py_error + string" where
  "join_values sep xs = bindE (mapE as_str xs) (\<lambda>ss. Inr (join sep ss))"

text \<open>\<^verbatim>\<open>sep.join(x)\<close> on any value.\<close>

definition py_join :: "string \<Rightarrow> json \<Rightarrow> py_error + string" where
  "py_join sep v = bindE (py_iter v) (join_values sep)"

text \<open>\<^verbatim>\<open>s.replace("Z", "+00:00")\<close>.\<close>

definition replace_Z :: "string \<Rightarrow> string" where
  "replace_Z s = concat (map (\<lambda>c. if c = CHR ''Z'' then ''+00:00'' else [c]) s)"

fun py_replace_Z :: "json \<Rightarrow> py_error + string" where
  "py_replace_Z (JStr s) = Inr (replace_Z s)"
| "py_replace_Z _ = Inl AttributeError"

subsection \<open>Decimal numerals\<close>

definition digit_char :: "nat \<Rightarrow> char" where
  "digit_char n = char_of (48 + n)"

function show_nat :: "nat \<Rightarrow> string" where
  "show_nat n = (if n < 10 then [digit_char n] else show_nat (n div 10) @ [digit_char (n mod 10)])"
  by pat_completeness auto
termination
  by (relation "measure id") auto

declare show_nat.simps [simp del]

definition show_int :: "int \<Rightarrow> string" where
  "show_int i = (if i < 0 then CHR ''-'' # show_nat (nat (- i)) else show_nat (nat i))"

subsection \<open>The parts of the Python library left open\<close>

text \<open>
  What the interpreter and its library do on the values below is not written out; a
  \<open>runtime\<close> supplies it, and every general theorem holds for each runtime.
  \<^item> \<open>str_other\<close>: \<^verbatim>\<open>str(x)\<close> of a float, a list or a dict;
  \<^item> \<open>float_0f\<close>: \<^verbatim>\<open>format(x, ".0f")\<close> of a float;
  \<^item> \<open>bigint_0f\<close>: \<^verbatim>\<open>format(i, ".0f")\<close> of an int beyond \<open>2^53\<close> (rounded to a double,
    \<^verbatim>\<open>OverflowError\<close> beyond the doubles);
  \<^item> \<open>iso_other\<close>: \<^verbatim>\<open>datetime.fromisoformat\<close> on a string that is not of the shape
    \<^verbatim>\<open>YYYY-MM-DDTHH:MM:SS+HH:MM\<close> and has seven characters or more (\<open>None\<close> is
    \<^verbatim>\<open>ValueError\<close>, \<open>Naive\<close> a datetime without offset);
  \<^item> \<open>sort_other\<close>: \<^verbatim>\<open>list.sort\<close> of two or more items whose keys are not all strs, given
    the keys and the items.
\<close>

datatype datetime = Naive | Aware int

record runtime =
  str_other :: "json \<Rightarrow> string"
  float_0f :: "real \<Rightarrow> string"
  bigint_0f :: "int \<Rightarrow> py_error + string"
  iso_other :: "string \<Rightarrow> datetime option"
  sort_other :: "json list \<Rightarrow> json list \<Rightarrow> py_error + json list"

text \<open>\<^verbatim>\<open>str(x)\<close>, as an f-string field \<^verbatim>\<open>{x}\<close> renders a value.\<close>

definition py_str :: "runtime \<Rightarrow> json \<Rightarrow> string" where
  "py_str rt v = (case v of
       JStr s \<Rightarrow> s
     | JNull \<Rightarrow> ''None''
     | JBool b \<Rightarrow> (if b then ''True'' else ''False'')
     | JInt i \<Rightarrow> show_int i
     | _ \<Rightarrow> str_other rt v)"

text \<open>The f-string field \<^verbatim>\<open>{x:.0f}\<close>.\<close>

definition py_format_0f :: "runtime \<Rightarrow> json \<Rightarrow> py_error + string" where
  "py_format_0f rt v = (case v of
       JInt i \<Rightarrow> (if \<bar>i\<bar> \<le> 2 ^ 53 then Inr (show_int i) else bigint_0f rt i)
     | JBool b \<Rightarrow> Inr (if b then ''1'' else ''0'')
     | JFloat x \<Rightarrow> Inr (float_0f rt x)
     | JStr s \<Rightarrow>
         Inl (ValueError (''Unknown format code '' @ [CHR 0x27] @ ''f'' @ [CHR 0x27]
                          @ '' for object of type '' @ [CHR 0x27] @ ''str'' @ [CHR 0x27]))
     | _ \<Rightarrow> Inl TypeError)"

section \<open>The formatters\<close>

text \<open>
  Each formatter takes one upstream record and returns its text block, or raises. The
  type annotation \<^verbatim>\<open>dict\<close> of the source is not enforced, so a formatter takes any value:
  the first \<^verbatim>\<open>.get\<close> raises \<open>AttributeError\<close> on one that is not a dict.
\<close>

definition format_line_status :: "runtime \<Rightarrow> json \<Rightarrow> py_error + string" where
  "format_line_status rt line_data =
     bindE (py_get line_data ''name'' (JStr ''Unknown Line'')) (\<lambda>name.
     bindE (py_get line_data ''lineStatuses'' (JArr [])) (\<lambda>statuses.
     bindE (if truthy statuses
            then bindE (py_index0 statuses) (\<lambda>first.
                 bindE (py_get first ''statusSeverityDescription'' (JStr ''Unknown'')) (\<lambda>status.
                 bindE (py_get first ''reason'' (JStr [])) (\<lambda>reason.
                 Inr (status, reason))))
            else Inr (JStr ''Unknown'', JStr [])) (\<lambda>(status, reason).
     let formatted = ''Line: '' @ py_str rt name @ ''\<newline>Status: '' @ py_str rt status in
     Inr ((if truthy reason then formatted @ ''\<newline>Reason: '' @ py_str rt reason
           else formatted) @ ''\<newline>---''))))"

text \<open>The loop of \<^verbatim>\<open>format_bike_point\<close> over the property list: the last entry with a
  key wins.\<close>

fun bike_loop :: "json list \<Rightarrow> json \<times> json \<Rightarrow> py_error + json \<times> json" where
  "bike_loop [] acc = Inr acc"
| "bike_loop (prop # props) (bikes_available, docks_available) =
     (case py_get prop ''key'' JNull of
        Inl e \<Rightarrow> Inl e
      | Inr k \<Rightarrow>
          if k = JStr ''NbBikes''
          then (case py_get prop ''value'' (JStr ''Unknown'') of
                  Inl e \<Rightarrow> Inl e
                | Inr v \<Rightarrow> bike_loop props (v, docks_available))
          else if k = JStr ''NbEmptyDocks''
          then (case py_get prop ''value'' (JStr ''Unknown'') of
                  Inl e \<Rightarrow> Inl e
                | Inr v \<Rightarrow> bike_loop props (bikes_available, v))
          else bike_loop props (bikes_available, docks_available))"

definition format_bike_point :: "runtime \<Rightarrow> json \<Rightarrow> py_error + string" where
  "format_bike_point rt point =
     bindE (py_get point ''commonName'' (JStr ''Unknown Location'')) (\<lambda>name.
     bindE (py_get point ''additionalProperties'' (JArr [])) (\<lambda>bikes.
     bindE (py_iter bikes) (\<lambda>props.
     bindE (bike_loop props (JStr ''Unknown'', JStr ''Unknown''))
       (\<lambda>(bikes_available, docks_available).
     Inr (''Location: '' @ py_str rt name @ ''\<newline>''
          @ ''Bikes Available: '' @ py_str rt bikes_available @ ''\<newline>''
          @ ''Empty Docks: '' @ py_str rt docks_available @ ''\<newline>''
          @ ''---'')))))"

text \<open>The two loops of \<^verbatim>\<open>format_station_info\<close> over the property list: the keys of the
  entries of one category.\<close>

fun collect_keys :: "string \<Rightarrow> json list \<Rightarrow> py_error + json list" where
  "collect_keys cat [] = Inr []"
| "collect_keys cat (additional # rest) =
     (case py_get additional ''category'' JNull of
        Inl e \<Rightarrow> Inl e
      | Inr c \<Rightarrow>
          if c = JStr cat
          then (case py_get additional ''key'' (JStr []) of
                  Inl e \<Rightarrow> Inl e
                | Inr k \<Rightarrow> bindE (collect_keys cat rest) (\<lambda>ks. Inr (k # ks)))
          else collect_keys cat rest)"

text \<open>\<^verbatim>\<open>[line.get("name", "") for line in x.get("lines", [])]\<close>.\<close>

definition line_names :: "json \<Rightarrow> py_error + json list" where
  "line_names x =
     bindE (py_get x ''lines'' (JArr [])) (\<lambda>ls.
     bindE (py_iter ls) (mapE (\<lambda>line. py_get line ''name'' (JStr []))))"

definition format_station_info :: "runtime \<Rightarrow> json \<Rightarrow> py_error + string" where
  "format_station_info rt station_data =
     bindE (py_get station_data ''commonName'' (JStr ''Unknown Station'')) (\<lambda>name.
     bindE (bindE (py_get station_data ''modes'' (JArr [])) (py_join '', '')) (\<lambda>modes.
     bindE (bindE (py_get station_data ''zones'' (JArr [])) py_iter) (\<lambda>zs.
     let zones = join '', '' (map (py_str rt) zs) in
     bindE (bindE (bindE (py_get station_data ''additionalProperties'' (JArr [])) py_iter)
              (collect_keys ''Facility'')) (\<lambda>facilities.
     bindE (line_names station_data) (\<lambda>lines.
     bindE (bindE (bindE (py_get station_data ''additionalProperties'' (JArr [])) py_iter)
              (collect_keys ''Accessibility'')) (\<lambda>accessibility.
     bindE (join_values '', '' lines) (\<lambda>lines_text.
     let formatted = ''Station: '' @ py_str rt name @ ''\<newline>''
           @ ''Transport Modes: '' @ modes @ ''\<newline>''
           @ ''Zones: '' @ zones @ ''\<newline>''
           @ ''Lines: '' @ lines_text @ ''\<newline>'' in
     bindE (if facilities \<noteq> []
            then bindE (join_values '', '' facilities) (\<lambda>t.
                   Inr (formatted @ ''Facilities: '' @ t @ ''\<newline>''))
            else Inr formatted) (\<lambda>formatted.
     bindE (if accessibility \<noteq> []
            then bindE (join_values '', '' accessibility) (\<lambda>t.
                   Inr (formatted @ ''Accessibility: '' @ t @ ''\<newline>''))
            else Inr formatted) (\<lambda>formatted.
     Inr (formatted @ ''---''))))))))))"

definition format_nearby_stop :: "runtime \<Rightarrow> json \<Rightarrow> py_error + string" where
  "format_nearby_stop rt stop =
     bindE (py_get stop ''commonName'' (JStr ''Unknown Location'')) (\<lambda>name.
     bindE (py_get stop ''distance'' (JInt 0)) (\<lambda>distance.
     bindE (bindE (py_get stop ''modes'' (JArr [])) (py_join '', '')) (\<lambda>modes.
     bindE (line_names stop) (\<lambda>lines.
     bindE (py_format_0f rt distance) (\<lambda>distance_text.
     bindE (join_values '', '' lines) (\<lambda>lines_text.
     Inr (''Stop: '' @ py_str rt name @ ''\<newline>''
          @ ''Distance: '' @ distance_text @ ''m\<newline>''
          @ ''Modes: '' @ modes @ ''\<newline>''
          @ ''Lines: '' @ lines_text @ ''\<newline>''
          @ ''---'')))))))"

subsection \<open>Timestamps\<close>

text \<open>
  \<^verbatim>\<open>datetime.fromisoformat\<close> on the shape \<^verbatim>\<open>YYYY-MM-DDTHH:MM:SS+HH:MM\<close> (or \<^verbatim>\<open>-HH:MM\<close>),
  which is what an upstream timestamp \<^verbatim>\<open>...Z\<close> becomes after \<^verbatim>\<open>replace("Z", "+00:00")\<close>:
  an aware datetime, here the instant in microseconds since 1970-01-01T00:00:00 UTC.
  A string of fewer than seven characters is refused with \<^verbatim>\<open>ValueError\<close>. Every other
  string is the runtime's.
\<close>

definition digit_val :: "char \<Rightarrow> nat option" where
  "digit_val c = (let n = (of_char c :: nat) in
     if 48 \<le> n \<and> n \<le> 57 then Some (n - 48) else None)"

fun digits_val :: "string \<Rightarrow> nat \<Rightarrow> nat option" where
  "digits_val [] acc = Some acc"
| "digits_val (c # cs) acc =
     (case digit_val c of None \<Rightarrow> None | Some d \<Rightarrow> digits_val cs (10 * acc + d))"

definition field :: "string \<Rightarrow> nat \<Rightarrow> nat \<Rightarrow> nat option" where
  "field s i n = digits_val (take n (drop i s)) 0"

definition is_leap :: "nat \<Rightarrow> bool" where
  "is_leap y = (y mod 4 = 0 \<and> (y mod 400 = 0 \<or> y mod 100 \<noteq> 0))"

definition days_in_month :: "nat \<Rightarrow> nat \<Rightarrow> nat" where
  "days_in_month y m =
     (if m = 2 then (if is_leap y then 29 else 28)
      else if m = 4 \<or> m = 6 \<or> m = 9 \<or> m = 11 then 30 else 31)"

text \<open>Days from 1970-01-01 to a date of the proleptic Gregorian calendar.\<close>

definition days_from_civil :: "nat \<Rightarrow> nat \<Rightarrow> nat \<Rightarrow> int" where
  "days_from_civil y m d =
     (let y' = (if m \<le> 2 then int y - 1 else int y);
          era = y' div 400;
          yoe = y' - era * 400;
          mp = (if m > 2 then int m - 3 else int m + 9);
          doy = (153 * mp + 2) div 5 + int d - 1;
          doe = yoe * 365 + yoe div 4 - yoe div 100 + doy
      in era * 146097 + doe - 719468)"

definition iso_shape :: "string \<Rightarrow> bool" where
  "iso_shape s =
     (length s = 25 \<and> s ! 4 = CHR ''-'' \<and> s ! 7 = CHR ''-'' \<and> s ! 10 = CHR ''T''
      \<and> s ! 13 = CHR '':'' \<and> s ! 16 = CHR '':''
      \<and> (s ! 19 = CHR ''+'' \<or> s ! 19 = CHR ''-'') \<and> s ! 22 = CHR '':'')"

definition iso_aware :: "string \<Rightarrow> int option" where
  "iso_aware s =
     (if iso_shape s then
        (case field s 0 4 of None \<Rightarrow> None | Some y \<Rightarrow>
        (case field s 5 2 of None \<Rightarrow> None | Some mo \<Rightarrow>
        (case field s 8 2 of None \<Rightarrow> None | Some d \<Rightarrow>
        (case field s 11 2 of None \<Rightarrow> None | Some h \<Rightarrow>
        (case field s 14 2 of None \<Rightarrow> None | Some mi \<Rightarrow>
        (case field s 17 2 of None \<Rightarrow> None | Some sec \<Rightarrow>
        (case field s 20 2 of None \<Rightarrow> None | Some oh \<Rightarrow>
        (case field s 23 2 of None \<Rightarrow> None | Some om \<Rightarrow>
           if 1 \<le> y \<and> 1 \<le> mo \<and> mo \<le> 12 \<and> 1 \<le> d \<and> d \<le> days_in_month y mo
              \<and> h < 24 \<and> mi < 60 \<and> sec < 60 \<and> oh < 24 \<and> om < 60
           then let local = days_from_civil y mo d * 86400 + int (h * 3600 + mi * 60 + sec);
                    offset = int (oh * 3600 + om * 60)
                in Some ((if s ! 19 = CHR ''-'' then local + offset else local - offset)
                         * 1000000)
           else None))))))))
      else None)"

definition fromisoformat :: "runtime \<Rightarrow> string \<Rightarrow> datetime option" where
  "fromisoformat rt s =
     (if length s < 7 then None
      else (case iso_aware s of Some t \<Rightarrow> Some (Aware t) | None \<Rightarrow> iso_other rt s))"

text \<open>\<^verbatim>\<open>int(delta.total_seconds() / 60)\<close> of a difference in microseconds: the quotient
  truncated towards zero (the doubles of the source give the same integer whenever the two
  instants are less than a century apart).\<close>

definition trunc_minutes :: "int \<Rightarrow> int" where
  "trunc_minutes d = (if 0 \<le> d then d div 60000000 else - ((- d) div 60000000))"

section \<open>The world outside\<close>

text \<open>
  An \<open>environment\<close> fixes what the process is given: the two credentials read at start-up
  (\<^verbatim>\<open>os.getenv\<close> gives \<^verbatim>\<open>None\<close> for an unset variable), what the upstream answers to the
  \<open>n\<close>-th request of a run, and what the clock shows at its \<open>n\<close>-th reading (microseconds
  since the epoch). A \<open>world\<close> records what a run has done so far: the requests issued, in
  order, and the number of clock readings.
\<close>

record request =
  url :: string
  params :: "(string \<times> json) list"

text \<open>The outcome of one \<^verbatim>\<open>client.get\<close>: no response at all (connection error, timeout), or
  a response with its status code and what \<^verbatim>\<open>response.json()\<close> makes of its body (\<open>None\<close>
  when the body is not JSON).\<close>

datatype http_result = NoResponse | Response nat "json option"

record environment =
  APP_KEY :: "string option"
  APP_ID :: "string option"
  http_get :: "nat \<Rightarrow> request \<Rightarrow> http_result"
  clock :: "nat \<Rightarrow> int"

record world =
  sent :: "request list"
  reads :: nat

definition datetime_now :: "environment \<Rightarrow> world \<Rightarrow> int \<times> world" where
  "datetime_now env w = (clock env (reads w), w\<lparr>reads := Suc (reads w)\<rparr>)"

subsection \<open>The arrival formatter\<close>

text \<open>The \<^verbatim>\<open>try\<close> block of \<^verbatim>\<open>format_arrival\<close>; its bare \<^verbatim>\<open>except\<close> turns every exception
  into \<^verbatim>\<open>"Time unknown"\<close>. Subtracting the aware \<^verbatim>\<open>now\<close> from a naive datetime raises.\<close>

definition arrival_time_desc ::
  "runtime \<Rightarrow> environment \<Rightarrow> json \<Rightarrow> world \<Rightarrow> string \<times> world" where
  "arrival_time_desc rt env arrival w =
     (case bindE (py_get arrival ''expectedArrival'' (JStr [])) py_replace_Z of
        Inl e \<Rightarrow> (''Time unknown'', w)
      | Inr s \<Rightarrow>
          (case fromisoformat rt s of
             None \<Rightarrow> (''Time unknown'', w)
           | Some expected_arrival \<Rightarrow>
               (case datetime_now env w of (now, w') \<Rightarrow>
                 (case expected_arrival of
                    Naive \<Rightarrow> (''Time unknown'', w')
                  | Aware t \<Rightarrow>
                      let minutes = trunc_minutes (t - now) in
                      (if minutes > 0 then show_int minutes @ '' minutes'' else ''Due'', w')))))"

definition format_arrival ::
  "runtime \<Rightarrow> environment \<Rightarrow> json \<Rightarrow> world \<Rightarrow> (py_error + string) \<times> world" where
  "format_arrival rt env arrival w =
     (case bindE (py_get arrival ''lineName'' (JStr ''Unknown Line'')) (\<lambda>line.
           bindE (py_get arrival ''destinationName'' (JStr ''Unknown Destination''))
             (\<lambda>destination.
           bindE (py_get arrival ''platformName'' (JStr ''Unknown Platform'')) (\<lambda>platform.
           Inr (line, destination, platform)))) of
        Inl e \<Rightarrow> (Inl e, w)
      | Inr (line, destination, platform) \<Rightarrow>
          (case arrival_time_desc rt env arrival w of (time_desc, w') \<Rightarrow>
            (Inr (''Line: '' @ py_str rt line @ ''\<newline>''
                  @ ''Platform: '' @ py_str rt platform @ ''\<newline>''
                  @ ''Destination: '' @ py_str rt destination @ ''\<newline>''
                  @ ''Arrival: '' @ time_desc @ ''\<newline>---''), w')))"

text \<open>\<^verbatim>\<open>[format_arrival(arrival) for arrival in xs]\<close>: the clock is read again for each
  record.\<close>

fun format_arrivals ::
  "runtime \<Rightarrow> environment \<Rightarrow> json list \<Rightarrow> world \<Rightarrow> (py_error + string list) \<times> world" where
  "format_arrivals rt env [] w = (Inr [], w)"
| "format_arrivals rt env (a # as) w =
     (case format_arrival rt env a w of
        (Inl e, w') \<Rightarrow> (Inl e, w')
      | (Inr b, w') \<Rightarrow>
          (case format_arrivals rt env as w' of
             (Inl e, w'') \<Rightarrow> (Inl e, w'')
           | (Inr bs, w'') \<Rightarrow> (Inr (b # bs), w'')))"

subsection \<open>Sorting\<close>

fun is_str :: "json \<Rightarrow> bool" where
  "is_str (JStr s) = True"
| "is_str _ = False"

fun the_str :: "json \<Rightarrow> string" where
  "the_str (JStr s) = s"
| "the_str _ = []"

text \<open>\<^verbatim>\<open>xs.sort(key=f)\<close> on a list: the keys are computed first, each may raise; strs
  compare code point by code point and the sort is stable.\<close>

definition list_sort ::
  "runtime \<Rightarrow> (json \<Rightarrow> py_error + json) \<Rightarrow> json list \<Rightarrow> py_error + json list" where
  "list_sort rt key xs =
     bindE (mapE key xs) (\<lambda>ks.
       if length xs \<le> 1 then Inr xs
       else if list_all is_str ks
       then Inr (map snd (sort_key fst (zip (map the_str ks) xs)))
       else sort_other rt ks xs)"

text \<open>\<^verbatim>\<open>x.sort(key=f)\<close> on any value: only a list has the method.\<close>

fun py_sort :: "runtime \<Rightarrow> (json \<Rightarrow> py_error + json) \<Rightarrow> json \<Rightarrow> py_error + json" where
  "py_sort rt key (JArr xs) = bindE (list_sort rt key xs) (\<lambda>ys. Inr (JArr ys))"
| "py_sort rt key _ = Inl AttributeError"

section \<open>The upstream client\<close>

definition TFL_API_BASE :: string where
  "TFL_API_BASE = ''https://api.tfl.gov.uk''"

text \<open>\<^verbatim>\<open>d.update(u)\<close>: a key of \<open>u\<close> that \<open>d\<close> has keeps its place and takes the new value, a
  new key goes to the end.\<close>

definition dict_update :: "(string \<times> json) list \<Rightarrow> (string \<times> json) list \<Rightarrow> (string \<times> json) list" where
  "dict_update d u = fold (\<lambda>kv. AList.update (fst kv) (snd kv)) u d"

definition opt_str :: "string option \<Rightarrow> json" where
  "opt_str x = (case x of None \<Rightarrow> JNull | Some s \<Rightarrow> JStr s)"

datatype http_exn = TransportError | HTTPStatusError nat | JSONDecodeError

text \<open>The \<^verbatim>\<open>try\<close> block of \<^verbatim>\<open>make_tfl_request\<close>: \<^verbatim>\<open>client.get\<close>, then
  \<^verbatim>\<open>response.raise_for_status()\<close> (httpx raises on every status that is not 2xx), then
  \<^verbatim>\<open>response.json()\<close>. The request counts as issued whatever comes back.\<close>

definition try_get :: "environment \<Rightarrow> request \<Rightarrow> world \<Rightarrow> (http_exn + json) \<times> world" where
  "try_get env req w =
     (let w' = w\<lparr>sent := sent w @ [req]\<rparr> in
      case http_get env (length (sent w)) req of
        NoResponse \<Rightarrow> (Inl TransportError, w')
      | Response status body \<Rightarrow>
          if 200 \<le> status \<and> status < 300
          then (case body of None \<Rightarrow> (Inl JSONDecodeError, w') | Some j \<Rightarrow> (Inr j, w'))
          else (Inl (HTTPStatusError status), w'))"

text \<open>The request \<^verbatim>\<open>make_tfl_request\<close> builds from an endpoint and the caller's
  parameters (\<open>None\<close> when the caller passes none).\<close>

definition tfl_request :: "environment \<Rightarrow> string \<Rightarrow> (string \<times> json) list option \<Rightarrow> request" where
  "tfl_request env endpoint ps =
     (let default_params = [(''app_key'', opt_str (APP_KEY env)), (''app_id'', opt_str (APP_ID env))]
      in \<lparr>url = TFL_API_BASE @ ''/'' @ endpoint,
          params = (case ps of
                      None \<Rightarrow> default_params
                    | Some p \<Rightarrow> if p = [] then default_params else dict_update default_params p)\<rparr>)"

text \<open>The result is the parsed body, or \<^verbatim>\<open>None\<close> (\<open>JNull\<close>) after
  \<^verbatim>\<open>except Exception\<close>.\<close>

definition make_tfl_request ::
  "environment \<Rightarrow> string \<Rightarrow> (string \<times> json) list option \<Rightarrow> world \<Rightarrow> json \<times> world" where
  "make_tfl_request env endpoint ps w =
     (case try_get env (tfl_request env endpoint ps) w of
        (Inl e, w') \<Rightarrow> (JNull, w')
      | (Inr body, w') \<Rightarrow> (body, w'))"

section \<open>Tool dispatch\<close>

datatype content = TextContent string

definition text_result :: "string \<Rightarrow> py_error + content list" where
  "text_result s = Inr [TextContent s]"

definition MODES :: json where
  "MODES = JStr ''tube,overground,dlr''"

text \<open>The branch \<^verbatim>\<open>get-line-status\<close> of \<^verbatim>\<open>handle_call_tool\<close>.\<close>

definition get_line_status ::
  "runtime \<Rightarrow> environment \<Rightarrow> (string \<times> json) list \<Rightarrow> world
     \<Rightarrow> (py_error + content list) \<times> world" where
  "get_line_status rt env arguments w =
     (case py_strip (dict_get arguments ''lines'' (JStr [])) of
        Inl e \<Rightarrow> (Inl e, w)
      | Inr lines \<Rightarrow>
          if lines = [] then (Inl (ValueError ''Lines parameter must not be empty''), w)
          else
            let lines_list = map strip (split_on CHR '','' lines) in
            (case make_tfl_request env (''Line/'' @ join '','' lines_list @ ''/Status'') None w of
               (statuses_data, w1) \<Rightarrow>
                 if \<not> truthy statuses_data
                 then (text_result ''Failed to retrieve line statuses'', w1)
                 else
                   (case bindE (py_iter statuses_data) (mapE (format_line_status rt)) of
                      Inl e \<Rightarrow> (Inl e, w1)
                    | Inr formatted_statuses \<Rightarrow>
                        (text_result (''Current Line Statuses:\<newline>\<newline>''
                                      @ join ''\<newline>'' formatted_statuses), w1))))"

text \<open>\<^verbatim>\<open>not search_result or not search_result.get("matches")\<close>.\<close>

definition no_matches :: "json \<Rightarrow> py_error + bool" where
  "no_matches search_result =
     (if \<not> truthy search_result then Inr True
      else bindE (py_get search_result ''matches'' JNull) (\<lambda>m. Inr (\<not> truthy m)))"

text \<open>\<^verbatim>\<open>search_result["matches"][0]["id"]\<close>.\<close>

definition first_match_id :: "json \<Rightarrow> py_error + json" where
  "first_match_id search_result =
     bindE (py_item search_result ''matches'') (\<lambda>ms.
     bindE (py_index0 ms) (\<lambda>m. py_item m ''id''))"

text \<open>The branch \<^verbatim>\<open>get-arrivals\<close>.\<close>

definition get_arrivals ::
  "runtime \<Rightarrow> environment \<Rightarrow> (string \<times> json) list \<Rightarrow> world
     \<Rightarrow> (py_error + content list) \<times> world" where
  "get_arrivals rt env arguments w =
     (case py_strip (dict_get arguments ''station'' (JStr [])) of
        Inl e \<Rightarrow> (Inl e, w)
      | Inr station \<Rightarrow>
          if station = [] then (Inl (ValueError ''Station parameter must not be empty''), w)
          else
            (case make_tfl_request env (''StopPoint/Search/'' @ station)
                    (Some [(''modes'', MODES)]) w of
               (search_result, w1) \<Rightarrow>
                 (case no_matches search_result of
                    Inl e \<Rightarrow> (Inl e, w1)
                  | Inr none \<Rightarrow>
                      if none then (text_result (''Could not find station: '' @ station), w1)
                      else
                      (case first_match_id search_result of
                         Inl e \<Rightarrow> (Inl e, w1)
                       | Inr station_id \<Rightarrow>
                           (case make_tfl_request env
                                   (''StopPoint/'' @ py_str rt station_id @ ''/Arrivals'') None w1 of
                              (arrivals_data, w2) \<Rightarrow>
                                if \<not> truthy arrivals_data
                                then (text_result (''Failed to retrieve arrivals for '' @ station), w2)
                                else
                                  (case bindE (py_sort rt
                                                 (\<lambda>x. py_get x ''expectedArrival'' (JStr []))
                                                 arrivals_data) (\<lambda>sorted.
                                        bindE (py_slice 10 sorted) py_iter) of
                                     Inl e \<Rightarrow> (Inl e, w2)
                                   | Inr firsts \<Rightarrow>
                                       (case format_arrivals rt env firsts w2 of
                                          (Inl e, w3) \<Rightarrow> (Inl e, w3)
                                        | (Inr formatted_arrivals, w3) \<Rightarrow>
                                            (text_result (''Next arrivals at '' @ station
                                               @ '':\<newline>\<newline>''
                                               @ join ''\<newline>'' formatted_arrivals), w3))))))))"

text \<open>The branch \<^verbatim>\<open>search-bike-points\<close>, with its two tests of \<^verbatim>\<open>not search_result\<close>.\<close>

definition search_bike_points ::
  "runtime \<Rightarrow> environment \<Rightarrow> (string \<times> json) list \<Rightarrow> world
     \<Rightarrow> (py_error + content list) \<times> world" where
  "search_bike_points rt env arguments w =
     (case py_strip (dict_get arguments ''location'' (JStr [])) of
        Inl e \<Rightarrow> (Inl e, w)
      | Inr location \<Rightarrow>
          if location = [] then (Inl (ValueError ''Location parameter must not be empty''), w)
          else
            (case make_tfl_request env ''BikePoint/Search''
                    (Some [(''query'', JStr location)]) w of
               (search_result, w1) \<Rightarrow>
                 if \<not> truthy search_result
                 then (text_result (''Failed to search for bike points near '' @ location), w1)
                 else if \<not> truthy search_result
                 then (text_result (''No bike points found near '' @ location), w1)
                 else
                   (case bindE (bindE (py_slice 5 search_result) py_iter)
                           (mapE (format_bike_point rt)) of
                      Inl e \<Rightarrow> (Inl e, w1)
                    | Inr formatted_points \<Rightarrow>
                        (text_result (''Bike points near '' @ location @ '':\<newline>\<newline>''
                                      @ join ''\<newline>'' formatted_points), w1))))"

text \<open>The branch \<^verbatim>\<open>get-station-info\<close>.\<close>

definition get_station_info ::
  "runtime \<Rightarrow> environment \<Rightarrow> (string \<times> json) list \<Rightarrow> world
     \<Rightarrow> (py_error + content list) \<times> world" where
  "get_station_info rt env arguments w =
     (case py_strip (dict_get arguments ''station'' (JStr [])) of
        Inl e \<Rightarrow> (Inl e, w)
      | Inr station \<Rightarrow>
          if station = [] then (Inl (ValueError ''Station parameter must not be empty''), w)
          else
            (case make_tfl_request env (''StopPoint/Search/'' @ station)
                    (Some [(''modes'', MODES)]) w of
               (search_result, w1) \<Rightarrow>
                 (case no_matches search_result of
                    Inl e \<Rightarrow> (Inl e, w1)
                  | Inr none \<Rightarrow>
                      if none then (text_result (''Could not find station: '' @ station), w1)
                      else
                      (case first_match_id search_result of
                         Inl e \<Rightarrow> (Inl e, w1)
                       | Inr station_id \<Rightarrow>
                           (case make_tfl_request env
                                   (''StopPoint/'' @ py_str rt station_id) None w1 of
                              (station_data, w2) \<Rightarrow>
                                if \<not> truthy station_data
                                then (text_result (''Failed to retrieve information for ''
                                                   @ station), w2)
                                else
                                  (case format_station_info rt station_data of
                                     Inl e \<Rightarrow> (Inl e, w2)
                                   | Inr t \<Rightarrow> (text_result t, w2)))))))"

text \<open>\<^verbatim>\<open>min(x, b)\<close> with an int \<open>b\<close>: the first argument unless the second is smaller;
  a bool counts as 0 or 1, and nothing but a number compares with an int.\<close>

fun py_min_int :: "json \<Rightarrow> int \<Rightarrow> py_error + json" where
  "py_min_int (JInt i) b = Inr (if b < i then JInt b else JInt i)"
| "py_min_int (JFloat x) b = Inr (if of_int b < x then JInt b else JFloat x)"
| "py_min_int (JBool t) b = Inr (if b < (if t then 1 else 0) then JInt b else JBool t)"
| "py_min_int _ b = Inl TypeError"

text \<open>The branch \<^verbatim>\<open>find-stops-by-radius\<close>.\<close>

definition find_stops_by_radius ::
  "runtime \<Rightarrow> environment \<Rightarrow> (string \<times> json) list \<Rightarrow> world
     \<Rightarrow> (py_error + content list) \<times> world" where
  "find_stops_by_radius rt env arguments w =
     (let lat = dict_get arguments ''lat'' JNull;
          lon = dict_get arguments ''lon'' JNull
      in (case py_min_int (dict_get arguments ''radius'' (JInt 1000)) 1000 of
        Inl e \<Rightarrow> (Inl e, w)
      | Inr radius \<Rightarrow>
          if \<not> list_all (\<lambda>x. x \<noteq> JNull) [lat, lon, radius]
          then (Inl (ValueError ''Missing required parameters''), w)
          else
            let place = py_str rt radius @ ''m of '' @ py_str rt lat @ '', '' @ py_str rt lon in
            (case make_tfl_request env ''StopPoint''
                    (Some [(''lat'', lat), (''lon'', lon), (''radius'', radius),
                           (''modes'', MODES)]) w of
               (stops_data, w1) \<Rightarrow>
                 (case (if \<not> truthy stops_data then Inr True
                        else bindE (py_contains ''stopPoints'' stops_data) (\<lambda>b. Inr (\<not> b))) of
                    Inl e \<Rightarrow> (Inl e, w1)
                  | Inr failed \<Rightarrow>
                      if failed then (text_result (''Failed to find stops within '' @ place), w1)
                      else
                      (case py_item stops_data ''stopPoints'' of
                         Inl e \<Rightarrow> (Inl e, w1)
                       | Inr stops \<Rightarrow>
                           if \<not> truthy stops
                           then (text_result (''No stops found within '' @ place), w1)
                           else
                             (case bindE (bindE (py_slice 10 stops) py_iter)
                                     (mapE (format_nearby_stop rt)) of
                                Inl e \<Rightarrow> (Inl e, w1)
                              | Inr formatted_stops \<Rightarrow>
                                  (text_result (''Stops within '' @ place @ '':\<newline>\<newline>''
                                                @ join ''\<newline>'' formatted_stops), w1)))))))"

text \<open>\<^verbatim>\<open>handle_call_tool(name, arguments)\<close>: \<open>arguments\<close> is a dict or \<^verbatim>\<open>None\<close>.\<close>

definition handle_call_tool ::
  "runtime \<Rightarrow> environment \<Rightarrow> string \<Rightarrow> (string \<times> json) list option \<Rightarrow> world
     \<Rightarrow> (py_error + content list) \<times> world" where
  "handle_call_tool rt env name arguments w =
     (case arguments of
        None \<Rightarrow> (Inl (ValueError ''Missing arguments''), w)
      | Some args \<Rightarrow>
          if args = [] then (Inl (ValueError ''Missing arguments''), w)
          else if name = ''get-line-status'' then get_line_status rt env args w
          else if name = ''get-arrivals'' then get_arrivals rt env args w
          else if name = ''search-bike-points'' then search_bike_points rt env args w
          else if name = ''get-station-info'' then get_station_info rt env args w
          else if name = ''find-stops-by-radius'' then find_stops_by_radius rt env args w
          else (Inl (ValueError (''Unknown tool: '' @ name)), w))"

section \<open>Notions used by the properties\<close>

text \<open>One invocation of a formatter, in a world: only the arrival formatter touches the
  world.\<close>

datatype formatter = LineStatus | Arrival | BikePoint | StationInfo | NearbyStop

definition run_formatter ::
  "formatter \<Rightarrow> runtime \<Rightarrow> environment \<Rightarrow> json \<Rightarrow> world \<Rightarrow> (py_error + string) \<times> world" where
  "run_formatter f rt env x w =
     (case f of
        LineStatus \<Rightarrow> (format_line_status rt x, w)
      | Arrival \<Rightarrow> format_arrival rt env x w
      | BikePoint \<Rightarrow> (format_bike_point rt x, w)
      | StationInfo \<Rightarrow> (format_station_info rt x, w)
      | NearbyStop \<Rightarrow> (format_nearby_stop rt x, w))"

text \<open>A required str argument that is missing, or blank once stripped.\<close>

definition blank_argument :: "(string \<times> json) list \<Rightarrow> string \<Rightarrow> bool" where
  "blank_argument args k =
     (case map_of args k of None \<Rightarrow> True | Some (JStr s) \<Rightarrow> strip s = [] | Some _ \<Rightarrow> False)"

text \<open>Fields of the types the formatters are written for. A field may be missing; one
  that is present is: \<^verbatim>\<open>lineStatuses\<close> empty or a list that starts with a dict, \<^verbatim>\<open>modes\<close> a
  list of strs, \<^verbatim>\<open>zones\<close> a list, \<^verbatim>\<open>lines\<close> a list of dicts whose \<^verbatim>\<open>name\<close> is a str,
  \<^verbatim>\<open>additionalProperties\<close> a list of dicts (whose \<^verbatim>\<open>key\<close> is a str, for a station),
  \<^verbatim>\<open>distance\<close> a float, a bool or an int of at most \<open>2^53\<close>.\<close>

definition field_ok :: "(json \<Rightarrow> bool) \<Rightarrow> (string \<times> json) list \<Rightarrow> string \<Rightarrow> bool" where
  "field_ok P r k = (case map_of r k of None \<Rightarrow> True | Some v \<Rightarrow> P v)"

fun is_dict :: "json \<Rightarrow> bool" where
  "is_dict (JObj kvs) = True"
| "is_dict _ = False"

fun list_of :: "(json \<Rightarrow> bool) \<Rightarrow> json \<Rightarrow> bool" where
  "list_of P (JArr xs) = list_all P xs"
| "list_of P _ = False"

fun dict_with_str :: "string \<Rightarrow> json \<Rightarrow> bool" where
  "dict_with_str k (JObj kvs) = field_ok is_str kvs k"
| "dict_with_str k _ = False"

fun statuses_ok :: "json \<Rightarrow> bool" where
  "statuses_ok (JArr (JObj kvs # rest)) = True"
| "statuses_ok v = (\<not> truthy v)"

fun distance_ok :: "json \<Rightarrow> bool" where
  "distance_ok (JFloat x) = True"
| "distance_ok (JBool b) = True"
| "distance_ok (JInt i) = (\<bar>i\<bar> \<le> 2 ^ 53)"
| "distance_ok _ = False"

definition line_ok :: "(string \<times> json) list \<Rightarrow> bool" where
  "line_ok r = field_ok statuses_ok r ''lineStatuses''"

definition bike_ok :: "(string \<times> json) list \<Rightarrow> bool" where
  "bike_ok r = field_ok (list_of is_dict) r ''additionalProperties''"

definition station_ok :: "(string \<times> json) list \<Rightarrow> bool" where
  "station_ok r =
     (field_ok (list_of is_str) r ''modes''
      \<and> field_ok (list_of (\<lambda>z. True)) r ''zones''
      \<and> field_ok (list_of (dict_with_str ''name'')) r ''lines''
      \<and> field_ok (list_of (dict_with_str ''key'')) r ''additionalProperties'')"

definition stop_ok :: "(string \<times> json) list \<Rightarrow> bool" where
  "stop_ok r =
     (field_ok distance_ok r ''distance''
      \<and> field_ok (list_of is_str) r ''modes''
      \<and> field_ok (list_of (dict_with_str ''name'')) r ''lines'')"

text \<open>What a record of these types holds, for stating the text a formatter builds from
  it: the entries of a list and the fields of an object (none, for a value of another
  kind); the first entry of \<^verbatim>\<open>lineStatuses\<close>; the value of the last property with a given
  key, or a default when no property has the key; the properties of a category; the str
  field of each entry of a list; a number with no decimals.\<close>

fun list_items :: "json \<Rightarrow> json list" where
  "list_items (JArr xs) = xs"
| "list_items _ = []"

fun dict_fields :: "json \<Rightarrow> (string \<times> json) list" where
  "dict_fields (JObj kvs) = kvs"
| "dict_fields _ = []"

definition first_status :: "(string \<times> json) list \<Rightarrow> (string \<times> json) list" where
  "first_status r =
     (case list_items (dict_get r ''lineStatuses'' (JArr [])) of
        [] \<Rightarrow> []
      | s # rest \<Rightarrow> dict_fields s)"

fun property_value :: "string \<Rightarrow> json list \<Rightarrow> json \<Rightarrow> json" where
  "property_value k [] v = v"
| "property_value k (p # ps) v =
     property_value k ps
       (if dict_get (dict_fields p) ''key'' JNull = JStr k
        then dict_get (dict_fields p) ''value'' (JStr ''Unknown'') else v)"

definition of_category :: "string \<Rightarrow> json list \<Rightarrow> json list" where
  "of_category cat ps =
     filter (\<lambda>p. dict_get (dict_fields p) ''category'' JNull = JStr cat) ps"

definition entry_strs :: "string \<Rightarrow> json list \<Rightarrow> string list" where
  "entry_strs k xs = map (\<lambda>x. the_str (dict_get (dict_fields x) k (JStr []))) xs"

definition number_0f :: "runtime \<Rightarrow> json \<Rightarrow> string" where
  "number_0f rt v = (case v of
       JInt i \<Rightarrow> show_int i
     | JBool b \<Rightarrow> (if b then ''1'' else ''0'')
     | JFloat x \<Rightarrow> float_0f rt x
     | _ \<Rightarrow> [])"

text \<open>The sort key of \<^verbatim>\<open>get-arrivals\<close> on a record whose \<^verbatim>\<open>expectedArrival\<close> is a str or
  missing: \<^verbatim>\<open>x.get("expectedArrival", "")\<close>.\<close>

fun expected_arrival_key :: "json \<Rightarrow> string" where
  "expected_arrival_key (JObj kvs) = the_str (dict_get kvs ''expectedArrival'' (JStr []))"
| "expected_arrival_key _ = []"

text \<open>The first upstream call of \<^verbatim>\<open>get-arrivals\<close> and \<^verbatim>\<open>get-station-info\<close>, and what it
  returns to the handler.\<close>

definition search_request :: "environment \<Rightarrow> string \<Rightarrow> request" where
  "search_request env station =
     tfl_request env (''StopPoint/Search/'' @ station) (Some [(''modes'', MODES)])"

definition search_step :: "environment \<Rightarrow> string \<Rightarrow> world \<Rightarrow> json" where
  "search_step env station w =
     fst (make_tfl_request env (''StopPoint/Search/'' @ station) (Some [(''modes'', MODES)]) w)"

text \<open>The request of \<^verbatim>\<open>find-stops-by-radius\<close> with a given radius.\<close>

definition radius_request :: "environment \<Rightarrow> json \<Rightarrow> json \<Rightarrow> json \<Rightarrow> request" where
  "radius_request env lat lon radius =
     \<lparr>url = ''https://api.tfl.gov.uk/StopPoint'',
      params = [(''app_key'', opt_str (APP_KEY env)), (''app_id'', opt_str (APP_ID env)),
                (''lat'', lat), (''lon'', lon), (''radius'', radius),
                (''modes'', JStr ''tube,overground,dlr'')]\<rparr>"

subsection \<open>Concrete runs\<close>

text \<open>A runtime, an environment and a world for concrete runs. The runs below use strs,
  small ints and timestamps of the standard shape only, so that the open parts of the
  runtime are never consulted. The upstream answers the \<open>n\<close>-th request with the \<open>n\<close>-th
  entry of a script, and the clock advances by a fixed step at each reading.\<close>

definition plain_runtime :: runtime where
  "plain_runtime =
     \<lparr>str_other = (\<lambda>v. ''?''), float_0f = (\<lambda>x. ''?''), bigint_0f = (\<lambda>i. Inl TypeError),
      iso_other = (\<lambda>s. None), sort_other = (\<lambda>ks xs. Inl TypeError)\<rparr>"

definition scripted :: "http_result list \<Rightarrow> int \<Rightarrow> int \<Rightarrow> environment" where
  "scripted answers start step =
     \<lparr>APP_KEY = Some ''key'', APP_ID = Some ''id'',
      http_get = (\<lambda>n req. if n < length answers then answers ! n else NoResponse),
      clock = (\<lambda>n. start + int n * step)\<rparr>"

definition fresh :: world where
  "fresh = \<lparr>sent = [], reads = 0\<rparr>"

definition victoria_body :: json where
  "victoria_body =
     JArr [JObj [(''name'', JStr ''Victoria''),
                 (''lineStatuses'',
                  JArr [JObj [(''statusSeverityDescription'', JStr ''Good Service'')]])]]"

definition found_victoria :: json where
  "found_victoria =
     JObj [(''matches'', JArr [JObj [(''id'', JStr ''940GZZLUVIC'')],
                              JObj [(''id'', JStr ''910GVICTRIC'')]])]"

definition two_arrivals :: json where
  "two_arrivals =
     JArr [JObj [(''lineName'', JStr ''Central''),
                 (''expectedArrival'', JStr ''2024-01-01T10:00:00+01:00'')],
           JObj [(''lineName'', JStr ''Victoria''),
                 (''expectedArrival'', JStr ''2024-01-01T09:30:00Z'')]]"

definition three_arrivals :: json where
  "three_arrivals =
     JArr [JObj [(''lineName'', JStr ''Victoria''),
                 (''destinationName'', JStr ''Walthamstow Central''),
                 (''expectedArrival'', JStr ''2024-01-01T08:05:00Z'')],
           JObj [(''lineName'', JStr ''Victoria''),
                 (''destinationName'', JStr ''Brixton''),
                 (''expectedArrival'', JStr ''2024-01-01T08:01:00Z'')],
           JObj [(''lineName'', JStr ''Circle''),
                 (''destinationName'', JStr ''Edgware Road''),
                 (''expectedArrival'', JStr ''2024-01-01T08:03:00Z'')]]"

section \<open>Basic facts\<close>

lemma bindE_Inl [simp]: "bindE (Inl e) f = Inl e"
  by (simp add: bindE_def)

lemma bindE_Inr [simp]: "bindE (Inr x) f = f x"
  by (simp add: bindE_def)

lemma make_tfl_request_world:
  "snd (make_tfl_request env endpoint ps w) = w\<lparr>sent := sent w @ [tfl_request env endpoint ps]\<rparr>"
  by (simp add: make_tfl_request_def try_get_def Let_def split: http_result.splits option.splits)

lemma blank_argument_strip:
  assumes "blank_argument args k"
  shows "py_strip (dict_get args k (JStr [])) = Inr []"
  using assms
  by (auto simp: blank_argument_def dict_get_def strip_def split: option.splits json.splits)

lemma get_line_status_blank:
  "blank_argument args ''lines'' \<Longrightarrow>
     get_line_status rt env args w = (Inl (ValueError ''Lines parameter must not be empty''), w)"
  by (simp add: get_line_status_def blank_argument_strip)

lemma get_arrivals_blank:
  "blank_argument args ''station'' \<Longrightarrow>
     get_arrivals rt env args w = (Inl (ValueError ''Station parameter must not be empty''), w)"
  by (simp add: get_arrivals_def blank_argument_strip)

lemma search_bike_points_blank:
  "blank_argument args ''location'' \<Longrightarrow>
     search_bike_points rt env args w
       = (Inl (ValueError ''Location parameter must not be empty''), w)"
  by (simp add: search_bike_points_def blank_argument_strip)

lemma get_station_info_blank:
  "blank_argument args ''station'' \<Longrightarrow>
     get_station_info rt env args w = (Inl (ValueError ''Station parameter must not be empty''), w)"
  by (simp add: get_station_info_def blank_argument_strip)

lemma handle_empty:
  "handle_call_tool rt env name (Some []) w = (Inl (ValueError ''Missing arguments''), w)"
  by (simp add: handle_call_tool_def)

lemma handle_get_line_status:
  "args \<noteq> [] \<Longrightarrow> handle_call_tool rt env ''get-line-status'' (Some args) w
     = get_line_status rt env args w"
  by (simp add: handle_call_tool_def)

lemma handle_get_arrivals:
  "args \<noteq> [] \<Longrightarrow> handle_call_tool rt env ''get-arrivals'' (Some args) w
     = get_arrivals rt env args w"
  by (simp add: handle_call_tool_def)

lemma handle_search_bike_points:
  "args \<noteq> [] \<Longrightarrow> handle_call_tool rt env ''search-bike-points'' (Some args) w
     = search_bike_points rt env args w"
  by (simp add: handle_call_tool_def)

lemma handle_get_station_info:
  "args \<noteq> [] \<Longrightarrow> handle_call_tool rt env ''get-station-info'' (Some args) w
     = get_station_info rt env args w"
  by (simp add: handle_call_tool_def)

lemma handle_find_stops:
  "args \<noteq> [] \<Longrightarrow> handle_call_tool rt env ''find-stops-by-radius'' (Some args) w
     = find_stops_by_radius rt env args w"
  by (simp add: handle_call_tool_def)


lemma py_min_int_not_null: "py_min_int v b = Inr r \<Longrightarrow> r \<noteq> JNull"
  by (cases v) (auto split: if_splits)

lemma radius_request_eq:
  "tfl_request env ''StopPoint''
     (Some [(''lat'', lat), (''lon'', lon), (''radius'', r), (''modes'', MODES)])
   = radius_request env lat lon r"
  by (simp add: tfl_request_def dict_update_def TFL_API_BASE_def MODES_def radius_request_def)

lemma find_stops_raises:
  assumes "dict_get args ''lat'' JNull = JNull \<or> dict_get args ''lon'' JNull = JNull"
  shows "\<exists>e. find_stops_by_radius rt env args w = (Inl e, w)"
proof (cases "py_min_int (dict_get args ''radius'' (JInt 1000)) 1000")
  case (Inl e)
  then show ?thesis by (simp add: find_stops_by_radius_def Let_def)
next
  case (Inr r)
  then show ?thesis using assms by (auto simp add: find_stops_by_radius_def Let_def)
qed



lemma make_tfl_request_pair:
  "make_tfl_request env endpoint ps w =
     (fst (make_tfl_request env endpoint ps w),
      w\<lparr>sent := sent w @ [tfl_request env endpoint ps]\<rparr>)"
  by (simp add: prod_eq_iff make_tfl_request_world)

lemma snd_case_sum_const:
  "(\<And>e. snd (f e) = v) \<Longrightarrow> (\<And>x. snd (g x) = v) \<Longrightarrow> snd (case_sum f g s) = v"
  by (cases s) auto



lemma find_stops_world:
  assumes "dict_get args ''lat'' JNull \<noteq> JNull" and "dict_get args ''lon'' JNull \<noteq> JNull"
    and "py_min_int (dict_get args ''radius'' (JInt 1000)) 1000 = Inr r"
  shows "snd (find_stops_by_radius rt env args w)
         = w\<lparr>sent := sent w @ [radius_request env (dict_get args ''lat'' JNull)
                       (dict_get args ''lon'' JNull) r]\<rparr>"
  using assms py_min_int_not_null[OF assms(3)]
  apply (simp add: find_stops_by_radius_def Let_def)
  apply (subst make_tfl_request_pair)
  apply (simp add: radius_request_eq split: sum.splits)
  done


lemma args_nonempty: "dict_get args k JNull \<noteq> JNull \<Longrightarrow> args \<noteq> []"
  by (auto simp: dict_get_def)

lemma string_tool_blank:
  assumes "(name, key) \<in> set [(''get-line-status'', ''lines''), (''get-arrivals'', ''station''),
                       (''search-bike-points'', ''location''), (''get-station-info'', ''station'')]"
    and "blank_argument args key"
  shows "\<exists>msg. handle_call_tool rt env name (Some args) w = (Inl (ValueError msg), w)"
proof (cases "args = []")
  case True
  have "handle_call_tool rt env name (Some []) w = (Inl (ValueError ''Missing arguments''), w)"
    by (rule handle_empty)
  then show ?thesis unfolding True by (rule exI)
next
  case False
  have "name = ''get-line-status'' \<and> key = ''lines''
      \<or> name = ''get-arrivals'' \<and> key = ''station''
      \<or> name = ''search-bike-points'' \<and> key = ''location''
      \<or> name = ''get-station-info'' \<and> key = ''station''"
    using assms(1) by simp
  then show ?thesis
  proof (elim disjE conjE)
    assume n: "name = ''get-line-status''" and k: "key = ''lines''"
    have "blank_argument args ''lines''"
      using assms(2) unfolding k .
    then have "handle_call_tool rt env ''get-line-status'' (Some args) w
                 = (Inl (ValueError ''Lines parameter must not be empty''), w)"
      by (simp only: handle_get_line_status [OF False] get_line_status_blank)
    then show ?thesis unfolding n by (rule exI)
  next
    assume n: "name = ''get-arrivals''" and k: "key = ''station''"
    have "blank_argument args ''station''"
      using assms(2) unfolding k .
    then have "handle_call_tool rt env ''get-arrivals'' (Some args) w
                 = (Inl (ValueError ''Station parameter must not be empty''), w)"
      by (simp only: handle_get_arrivals [OF False] get_arrivals_blank)
    then show ?thesis unfolding n by (rule exI)
  next
    assume n: "name = ''search-bike-points''" and k: "key = ''location''"
    have "blank_argument args ''location''"
      using assms(2) unfolding k .
    then have "handle_call_tool rt env ''search-bike-points'' (Some args) w
                 = (Inl (ValueError ''Location parameter must not be empty''), w)"
      by (simp only: handle_search_bike_points [OF False] search_bike_points_blank)
    then show ?thesis unfolding n by (rule exI)
  next
    assume n: "name = ''get-station-info''" and k: "key = ''station''"
    have "blank_argument args ''station''"
      using assms(2) unfolding k .
    then have "handle_call_tool rt env ''get-station-info'' (Some args) w
                 = (Inl (ValueError ''Station parameter must not be empty''), w)"
      by (simp only: handle_get_station_info [OF False] get_station_info_blank)
    then show ?thesis unfolding n by (rule exI)
  qed
qed

lemma find_stops_type_error:
  assumes "py_min_int (dict_get args ''radius'' (JInt 1000)) 1000 = Inl e"
  shows "find_stops_by_radius rt env args w = (Inl e, w)"
  using assms by (simp add: find_stops_by_radius_def Let_def)

lemma map_of_dict_update:
  "distinct (map fst u) \<Longrightarrow>
     map_of (dict_update d u) k = (case map_of u k of Some v \<Rightarrow> Some v | None \<Rightarrow> map_of d k)"
  unfolding dict_update_def
proof (induction u arbitrary: d)
  case Nil
  then show ?case by simp
next
  case (Cons a u)
  then have "map_of u (fst a) = None"
    by (simp add: map_of_eq_None_iff)
  with Cons show ?case
    by (cases a) (simp add: AList.update_conv' split: option.splits)
qed

lemma make_tfl_request_ok:
  assumes "http_get env (length (sent w)) (tfl_request env endpoint ps) = Response 200 (Some body)"
  shows "make_tfl_request env endpoint ps w
           = (body, w\<lparr>sent := sent w @ [tfl_request env endpoint ps]\<rparr>)"
  using assms by (simp add: make_tfl_request_def try_get_def Let_def)

lemma search_bike_points_never:
  "fst (search_bike_points rt env args w)
     \<noteq> text_result (''No bike points found near '' @ location)"
  by (simp add: search_bike_points_def text_result_def split: sum.splits prod.splits)

lemma search_bike_points_failed:
  assumes "py_strip (dict_get args ''location'' (JStr [])) = Inr loc" and "loc \<noteq> []"
    and "\<not> truthy (fst (make_tfl_request env ''BikePoint/Search''
                            (Some [(''query'', JStr loc)]) w))"
  shows "fst (search_bike_points rt env args w)
           = text_result (''Failed to search for bike points near '' @ loc)"
proof -
  obtain d w1 where q: "make_tfl_request env ''BikePoint/Search''
                          (Some [(''query'', JStr loc)]) w = (d, w1)"
    by (cases "make_tfl_request env ''BikePoint/Search'' (Some [(''query'', JStr loc)]) w")
  with assms(3) have "\<not> truthy d"
    by simp
  with assms(1,2) q show ?thesis
    by (simp add: search_bike_points_def)
qed

lemma format_arrival_sent: "sent (snd (format_arrival rt env x w)) = sent w"
  by (simp add: format_arrival_def arrival_time_desc_def datetime_now_def Let_def
      split: sum.splits option.splits datetime.splits prod.splits)

lemma format_arrivals_sent: "sent (snd (format_arrivals rt env xs w)) = sent w"
proof (induction xs arbitrary: w)
  case Nil
  then show ?case by simp
next
  case (Cons a xs)
  show ?case
    using Cons [of "snd (format_arrival rt env a w)"] format_arrival_sent [of rt env a w]
    by (simp add: case_prod_beta split: sum.splits)
qed

lemma search_world:
  "snd (make_tfl_request env (''StopPoint/Search/'' @ st) (Some [(''modes'', MODES)]) w)
     = w\<lparr>sent := sent w @ [search_request env st]\<rparr>"
  by (simp add: make_tfl_request_world search_request_def)

lemma get_arrivals_not_found:
  assumes "py_strip (dict_get args ''station'' (JStr [])) = Inr st" and "st \<noteq> []"
    and "no_matches (search_step env st w) = Inr True"
  shows "get_arrivals rt env args w
         = (text_result (''Could not find station: '' @ st),
            w\<lparr>sent := sent w @ [search_request env st]\<rparr>)"
  using assms search_world [of env st w]
  by (simp add: get_arrivals_def search_step_def case_prod_beta)

lemma get_station_info_not_found:
  assumes "py_strip (dict_get args ''station'' (JStr [])) = Inr st" and "st \<noteq> []"
    and "no_matches (search_step env st w) = Inr True"
  shows "get_station_info rt env args w
         = (text_result (''Could not find station: '' @ st),
            w\<lparr>sent := sent w @ [search_request env st]\<rparr>)"
  using assms search_world [of env st w]
  by (simp add: get_station_info_def search_step_def case_prod_beta)

lemma get_arrivals_found:
  assumes "py_strip (dict_get args ''station'' (JStr [])) = Inr st" and "st \<noteq> []"
    and "no_matches (search_step env st w) = Inr False"
    and "first_match_id (search_step env st w) = Inr sid"
  shows "sent (snd (get_arrivals rt env args w))
         = sent w @ [search_request env st,
                     tfl_request env (''StopPoint/'' @ py_str rt sid @ ''/Arrivals'') None]"
  using assms search_world [of env st w]
  by (simp add: get_arrivals_def search_step_def case_prod_beta make_tfl_request_world
      format_arrivals_sent split: sum.splits)

lemma get_station_info_found:
  assumes "py_strip (dict_get args ''station'' (JStr [])) = Inr st" and "st \<noteq> []"
    and "no_matches (search_step env st w) = Inr False"
    and "first_match_id (search_step env st w) = Inr sid"
  shows "sent (snd (get_station_info rt env args w))
         = sent w @ [search_request env st,
                     tfl_request env (''StopPoint/'' @ py_str rt sid) None]"
  using assms search_world [of env st w]
  by (simp add: get_station_info_def search_step_def case_prod_beta make_tfl_request_world
      split: sum.splits)

lemma no_matches_True:
  assumes "\<not> truthy r \<or> (\<exists>d. r = JObj d \<and> \<not> truthy (dict_get d ''matches'' JNull))"
  shows "no_matches r = Inr True"
  using assms by (auto simp: no_matches_def)

lemma first_match_found:
  assumes "r = JObj d" and "map_of d ''matches'' = Some (JArr (JObj m # rest))"
    and "map_of m ''id'' = Some sid"
  shows "no_matches r = Inr False \<and> first_match_id r = Inr sid"
  using assms by (auto simp: no_matches_def first_match_id_def dict_get_def)

lemma format_arrival_clock:
  assumes "clock env (reads w) = clock env' (reads w')"
  shows "fst (format_arrival rt env x w) = fst (format_arrival rt env' x w')"
  using assms
  by (simp add: format_arrival_def arrival_time_desc_def datetime_now_def Let_def
      split: sum.splits option.splits datetime.splits prod.splits)

lemma is_dict_obtain: "is_dict x \<Longrightarrow> \<exists>kvs. x = JObj kvs"
  by (cases x) simp_all

lemma is_str_obtain: "is_str x \<Longrightarrow> \<exists>s. x = JStr s"
  by (cases x) simp_all

lemma dict_with_str_obtain:
  "dict_with_str k x \<Longrightarrow> \<exists>kvs. x = JObj kvs \<and> is_str (dict_get kvs k (JStr []))"
  by (cases x) (simp_all add: field_ok_def dict_get_def split: option.splits)

lemma list_of_obtain: "list_of P v \<Longrightarrow> \<exists>xs. v = JArr xs \<and> list_all P xs"
  by (cases v) simp_all

lemma field_list_obtain:
  assumes "field_ok (list_of P) r k"
  shows "\<exists>xs. dict_get r k (JArr []) = JArr xs \<and> list_all P xs"
proof (cases "map_of r k")
  case None
  then show ?thesis by (simp add: dict_get_def)
next
  case (Some v)
  with assms have "list_of P v"
    by (simp add: field_ok_def)
  then show ?thesis
    using Some list_of_obtain [of P v] by (simp add: dict_get_def)
qed

lemma statuses_ok_cases:
  "statuses_ok v \<Longrightarrow> (\<exists>kvs rest. v = JArr (JObj kvs # rest)) \<or> \<not> truthy v"
  by (induction v rule: statuses_ok.induct) simp_all

lemma show_int_0: "show_int 0 = ''0''"
  by code_simp

lemma format_line_status_empty:
  "format_line_status rt (JObj []) = Inr ''Line: Unknown Line\<newline>Status: Unknown\<newline>---''"
  by (simp add: format_line_status_def dict_get_def py_str_def)

lemma format_arrival_empty:
  "fst (format_arrival rt env (JObj []) w)
     = Inr ''Line: Unknown Line\<newline>Platform: Unknown Platform\<newline>Destination: Unknown Destination\<newline>Arrival: Time unknown\<newline>---''"
  by (simp add: format_arrival_def arrival_time_desc_def dict_get_def replace_Z_def
      fromisoformat_def py_str_def)

lemma format_bike_point_empty:
  "format_bike_point rt (JObj [])
     = Inr ''Location: Unknown Location\<newline>Bikes Available: Unknown\<newline>Empty Docks: Unknown\<newline>---''"
  by (simp add: format_bike_point_def dict_get_def py_str_def)

lemma format_station_info_empty:
  "format_station_info rt (JObj [])
     = Inr ''Station: Unknown Station\<newline>Transport Modes: \<newline>Zones: \<newline>Lines: \<newline>---''"
  by (simp add: format_station_info_def dict_get_def py_str_def py_join_def join_values_def
      line_names_def)

lemma format_nearby_stop_empty:
  "format_nearby_stop rt (JObj [])
     = Inr ''Stop: Unknown Location\<newline>Distance: 0m\<newline>Modes: \<newline>Lines: \<newline>---''"
  by (simp add: format_nearby_stop_def dict_get_def py_str_def py_join_def join_values_def
      line_names_def py_format_0f_def show_int_0)

lemma falsy_no_items: "\<not> truthy v \<Longrightarrow> list_items v = []"
  by (cases v) simp_all

lemma format_line_status_text:
  assumes "line_ok r"
  shows "format_line_status rt (JObj r)
         = Inr (''Line: '' @ py_str rt (dict_get r ''name'' (JStr ''Unknown Line''))
                @ ''\<newline>Status: ''
                @ py_str rt (dict_get (first_status r) ''statusSeverityDescription''
                               (JStr ''Unknown''))
                @ (if truthy (dict_get (first_status r) ''reason'' (JStr []))
                   then ''\<newline>Reason: ''
                        @ py_str rt (dict_get (first_status r) ''reason'' (JStr []))
                   else [])
                @ ''\<newline>---'')"
proof (cases "map_of r ''lineStatuses''")
  case None
  then have "dict_get r ''lineStatuses'' (JArr []) = JArr []"
    by (simp add: dict_get_def)
  then show ?thesis
    by (simp add: format_line_status_def first_status_def Let_def)
      (simp add: dict_get_def py_str_def)
next
  case (Some v)
  then have d: "dict_get r ''lineStatuses'' (JArr []) = v"
    by (simp add: dict_get_def)
  from Some assms have "statuses_ok v"
    by (simp add: line_ok_def field_ok_def)
  then have "(\<exists>kvs rest. v = JArr (JObj kvs # rest)) \<or> \<not> truthy v"
    by (rule statuses_ok_cases)
  then show ?thesis
  proof
    assume "\<exists>kvs rest. v = JArr (JObj kvs # rest)"
    then obtain kvs rest where "v = JArr (JObj kvs # rest)"
      by blast
    with d show ?thesis
      by (simp add: format_line_status_def first_status_def Let_def)
  next
    assume f: "\<not> truthy v"
    then have "list_items v = []"
      by (rule falsy_no_items)
    with d f show ?thesis
      by (simp add: format_line_status_def first_status_def Let_def)
        (simp add: dict_get_def py_str_def)
  qed
qed

lemma format_arrival_text:
  "fst (format_arrival rt env (JObj r) w)
   = Inr (''Line: '' @ py_str rt (dict_get r ''lineName'' (JStr ''Unknown Line''))
          @ ''\<newline>Platform: ''
          @ py_str rt (dict_get r ''platformName'' (JStr ''Unknown Platform''))
          @ ''\<newline>Destination: ''
          @ py_str rt (dict_get r ''destinationName'' (JStr ''Unknown Destination''))
          @ ''\<newline>Arrival: '' @ fst (arrival_time_desc rt env (JObj r) w)
          @ ''\<newline>---'')"
  by (simp add: format_arrival_def case_prod_beta)

lemma arrival_time_missing:
  assumes "map_of r ''expectedArrival'' = None"
  shows "fst (arrival_time_desc rt env (JObj r) w) = ''Time unknown''"
  using assms
  by (simp add: arrival_time_desc_def dict_get_def replace_Z_def fromisoformat_def)

lemma bike_loop_value:
  "list_all is_dict xs \<Longrightarrow>
     bike_loop xs (b, d)
       = Inr (property_value ''NbBikes'' xs b, property_value ''NbEmptyDocks'' xs d)"
proof (induction xs arbitrary: b d)
  case Nil
  then show ?case by simp
next
  case (Cons x xs)
  then obtain kvs where x: "x = JObj kvs"
    using is_dict_obtain [of x] by auto
  from Cons have ih: "\<And>b d. bike_loop xs (b, d)
       = Inr (property_value ''NbBikes'' xs b, property_value ''NbEmptyDocks'' xs d)"
    by simp
  show ?case
    unfolding x by (simp add: ih)
qed

lemma format_bike_point_text:
  assumes "bike_ok r"
  shows "format_bike_point rt (JObj r)
         = Inr (''Location: ''
                @ py_str rt (dict_get r ''commonName'' (JStr ''Unknown Location''))
                @ ''\<newline>Bikes Available: ''
                @ py_str rt (property_value ''NbBikes''
                     (list_items (dict_get r ''additionalProperties'' (JArr [])))
                     (JStr ''Unknown''))
                @ ''\<newline>Empty Docks: ''
                @ py_str rt (property_value ''NbEmptyDocks''
                     (list_items (dict_get r ''additionalProperties'' (JArr [])))
                     (JStr ''Unknown''))
                @ ''\<newline>---'')"
proof -
  obtain xs where xs: "dict_get r ''additionalProperties'' (JArr []) = JArr xs"
    and d: "list_all is_dict xs"
    using field_list_obtain [of is_dict r "''additionalProperties''"] assms
    unfolding bike_ok_def by blast
  show ?thesis
    by (simp add: format_bike_point_def xs bike_loop_value [OF d])
qed

lemma join_values_strs:
  "list_all is_str ks \<Longrightarrow> join_values sep ks = Inr (join sep (map the_str ks))"
proof -
  assume "list_all is_str ks"
  then have "mapE as_str ks = Inr (map the_str ks)"
  proof (induction ks)
    case Nil
    then show ?case by simp
  next
    case (Cons k ks)
    then obtain s where "k = JStr s"
      using is_str_obtain [of k] by auto
    with Cons show ?case by simp
  qed
  then show ?thesis
    by (simp add: join_values_def)
qed

lemma collect_keys_value:
  "list_all (dict_with_str ''key'') ps \<Longrightarrow>
     collect_keys cat ps
       = Inr (map (\<lambda>p. dict_get (dict_fields p) ''key'' (JStr [])) (of_category cat ps))
     \<and> list_all is_str
          (map (\<lambda>p. dict_get (dict_fields p) ''key'' (JStr [])) (of_category cat ps))"
proof (induction ps)
  case Nil
  then show ?case by (simp add: of_category_def)
next
  case (Cons p ps)
  then obtain kvs where p: "p = JObj kvs" and k: "is_str (dict_get kvs ''key'' (JStr []))"
    using dict_with_str_obtain [of "''key''" p] by auto
  from Cons have ih: "collect_keys cat ps
       = Inr (map (\<lambda>p. dict_get (dict_fields p) ''key'' (JStr [])) (of_category cat ps))"
    and ihs: "list_all is_str
          (map (\<lambda>p. dict_get (dict_fields p) ''key'' (JStr [])) (of_category cat ps))"
    by simp_all
  show ?case
    unfolding p using k ih ihs by (simp add: of_category_def)
qed

lemma line_names_value:
  assumes "field_ok (list_of (dict_with_str ''name'')) r ''lines''"
  shows "line_names (JObj r)
           = Inr (map (\<lambda>l. dict_get (dict_fields l) ''name'' (JStr []))
                    (list_items (dict_get r ''lines'' (JArr []))))
         \<and> list_all is_str (map (\<lambda>l. dict_get (dict_fields l) ''name'' (JStr []))
                    (list_items (dict_get r ''lines'' (JArr []))))"
proof -
  obtain xs where xs: "dict_get r ''lines'' (JArr []) = JArr xs"
    and d: "list_all (dict_with_str ''name'') xs"
    using field_list_obtain [OF assms] by blast
  from d have "mapE (\<lambda>line. py_get line ''name'' (JStr [])) xs
                 = Inr (map (\<lambda>l. dict_get (dict_fields l) ''name'' (JStr [])) xs)
               \<and> list_all is_str (map (\<lambda>l. dict_get (dict_fields l) ''name'' (JStr [])) xs)"
  proof (induction xs)
    case Nil
    then show ?case by simp
  next
    case (Cons x xs)
    then obtain kvs where x: "x = JObj kvs" and k: "is_str (dict_get kvs ''name'' (JStr []))"
      using dict_with_str_obtain [of "''name''" x] by auto
    from Cons show ?case
      unfolding x using k by simp
  qed
  with xs show ?thesis
    by (simp add: line_names_def)
qed

lemma distance_text:
  assumes "distance_ok v"
  shows "py_format_0f rt v = Inr (number_0f rt v)"
  using assms by (cases v) (simp_all add: py_format_0f_def number_0f_def)

lemma format_station_info_text:
  assumes "station_ok r"
  shows "format_station_info rt (JObj r)
         = Inr (''Station: ''
                @ py_str rt (dict_get r ''commonName'' (JStr ''Unknown Station''))
                @ ''\<newline>Transport Modes: ''
                @ join '', '' (map the_str (list_items (dict_get r ''modes'' (JArr []))))
                @ ''\<newline>Zones: ''
                @ join '', '' (map (py_str rt) (list_items (dict_get r ''zones'' (JArr []))))
                @ ''\<newline>Lines: ''
                @ join '', '' (entry_strs ''name'' (list_items (dict_get r ''lines'' (JArr []))))
                @ ''\<newline>''
                @ (if of_category ''Facility''
                        (list_items (dict_get r ''additionalProperties'' (JArr []))) = []
                   then []
                   else ''Facilities: ''
                        @ join '', '' (entry_strs ''key'' (of_category ''Facility''
                            (list_items (dict_get r ''additionalProperties'' (JArr [])))))
                        @ ''\<newline>'')
                @ (if of_category ''Accessibility''
                        (list_items (dict_get r ''additionalProperties'' (JArr []))) = []
                   then []
                   else ''Accessibility: ''
                        @ join '', '' (entry_strs ''key'' (of_category ''Accessibility''
                            (list_items (dict_get r ''additionalProperties'' (JArr [])))))
                        @ ''\<newline>'')
                @ ''---'')"
proof -
  from assms have m: "field_ok (list_of is_str) r ''modes''"
    and z: "field_ok (list_of (\<lambda>z. True)) r ''zones''"
    and l: "field_ok (list_of (dict_with_str ''name'')) r ''lines''"
    and a: "field_ok (list_of (dict_with_str ''key'')) r ''additionalProperties''"
    by (simp_all only: station_ok_def)
  obtain ms where ms: "dict_get r ''modes'' (JArr []) = JArr ms" and msd: "list_all is_str ms"
    using field_list_obtain [OF m] by blast
  obtain zs where zs: "dict_get r ''zones'' (JArr []) = JArr zs"
    using field_list_obtain [OF z] by blast
  obtain ps where ps: "dict_get r ''additionalProperties'' (JArr []) = JArr ps"
    and pd: "list_all (dict_with_str ''key'') ps"
    using field_list_obtain [OF a] by blast
  define key_of where "key_of = (\<lambda>p. dict_get (dict_fields p) ''key'' (JStr []))"
  define fs where "fs = map key_of (of_category ''Facility'' ps)"
  define acs where "acs = map key_of (of_category ''Accessibility'' ps)"
  define ns where "ns = map (\<lambda>l. dict_get (dict_fields l) ''name'' (JStr []))
                          (list_items (dict_get r ''lines'' (JArr [])))"
  have cf: "collect_keys ''Facility'' ps = Inr fs" and fss: "list_all is_str fs"
    using collect_keys_value [OF pd, of "''Facility''"] by (simp_all add: fs_def key_of_def)
  have ca: "collect_keys ''Accessibility'' ps = Inr acs" and acss: "list_all is_str acs"
    using collect_keys_value [OF pd, of "''Accessibility''"]
    by (simp_all add: acs_def key_of_def)
  have ln: "line_names (JObj r) = Inr ns" and nss: "list_all is_str ns"
    using line_names_value [OF l] by (simp_all add: ns_def)
  have jm: "py_join '', '' (JArr ms) = Inr (join '', '' (map the_str ms))"
    by (simp add: py_join_def join_values_strs [OF msd])
  have jl: "join_values '', '' ns
              = Inr (join '', '' (entry_strs ''name'' (list_items (dict_get r ''lines'' (JArr [])))))"
    by (simp add: join_values_strs [OF nss]) (simp add: ns_def entry_strs_def comp_def)
  have jf: "join_values '', '' fs
              = Inr (join '', '' (entry_strs ''key'' (of_category ''Facility'' ps)))"
    by (simp add: join_values_strs [OF fss]) (simp add: fs_def key_of_def entry_strs_def comp_def)
  have ja: "join_values '', '' acs
              = Inr (join '', '' (entry_strs ''key'' (of_category ''Accessibility'' ps)))"
    by (simp add: join_values_strs [OF acss])
      (simp add: acs_def key_of_def entry_strs_def comp_def)
  have nf: "(fs = []) = (of_category ''Facility'' ps = [])"
    by (simp add: fs_def)
  have na: "(acs = []) = (of_category ''Accessibility'' ps = [])"
    by (simp add: acs_def)
  show ?thesis
    unfolding format_station_info_def
    by (simp add: ms zs ps jm cf ca ln jl jf ja nf na Let_def)
qed

lemma format_nearby_stop_text:
  assumes "stop_ok r"
  shows "format_nearby_stop rt (JObj r)
         = Inr (''Stop: '' @ py_str rt (dict_get r ''commonName'' (JStr ''Unknown Location''))
                @ ''\<newline>Distance: '' @ number_0f rt (dict_get r ''distance'' (JInt 0))
                @ ''m\<newline>Modes: ''
                @ join '', '' (map the_str (list_items (dict_get r ''modes'' (JArr []))))
                @ ''\<newline>Lines: ''
                @ join '', '' (entry_strs ''name'' (list_items (dict_get r ''lines'' (JArr []))))
                @ ''\<newline>---'')"
proof -
  from assms have d: "field_ok distance_ok r ''distance''"
    and m: "field_ok (list_of is_str) r ''modes''"
    and l: "field_ok (list_of (dict_with_str ''name'')) r ''lines''"
    by (simp_all only: stop_ok_def)
  obtain ms where ms: "dict_get r ''modes'' (JArr []) = JArr ms" and msd: "list_all is_str ms"
    using field_list_obtain [OF m] by blast
  define ns where "ns = map (\<lambda>l. dict_get (dict_fields l) ''name'' (JStr []))
                          (list_items (dict_get r ''lines'' (JArr [])))"
  have ln: "line_names (JObj r) = Inr ns" and nss: "list_all is_str ns"
    using line_names_value [OF l] by (simp_all add: ns_def)
  have jm: "py_join '', '' (JArr ms) = Inr (join '', '' (map the_str ms))"
    by (simp add: py_join_def join_values_strs [OF msd])
  have jl: "join_values '', '' ns
              = Inr (join '', '' (entry_strs ''name'' (list_items (dict_get r ''lines'' (JArr [])))))"
    by (simp add: join_values_strs [OF nss]) (simp add: ns_def entry_strs_def comp_def)
  have "distance_ok (dict_get r ''distance'' (JInt 0))"
    using d by (simp add: field_ok_def dict_get_def split: option.splits)
  then have dt: "py_format_0f rt (dict_get r ''distance'' (JInt 0))
                   = Inr (number_0f rt (dict_get r ''distance'' (JInt 0)))"
    by (rule distance_text)
  show ?thesis
    unfolding format_nearby_stop_def
    by (simp add: ms jm ln jl dt Let_def)
qed

lemma dict_get_missing: "map_of r k = None \<Longrightarrow> dict_get r k d = d"
  by (simp add: dict_get_def)

lemma py_str_JStr: "py_str rt (JStr s) = s"
  by (simp add: py_str_def)

lemma first_status_missing: "map_of r ''lineStatuses'' = None \<Longrightarrow> first_status r = []"
  by (simp add: first_status_def dict_get_missing)

lemma property_value_missing:
  "list_all (\<lambda>p. dict_get (dict_fields p) ''key'' JNull \<noteq> JStr k) ps \<Longrightarrow>
     property_value k ps v = v"
  by (induction ps arbitrary: v) simp_all

lemma line_statuses_missing:
  assumes "map_of r ''lineStatuses'' = None"
  shows "format_line_status rt (JObj r)
         = Inr (''Line: '' @ py_str rt (dict_get r ''name'' (JStr ''Unknown Line''))
                @ ''\<newline>Status: Unknown\<newline>---'')"
proof -
  have "line_ok r"
    using assms by (simp add: line_ok_def field_ok_def)
  then show ?thesis
    by (simp add: format_line_status_text first_status_missing [OF assms] py_str_JStr
        dict_get_missing)
qed

lemma line_name_missing:
  assumes "map_of r ''name'' = None \<and> line_ok r"
  shows "format_line_status rt (JObj r)
         = Inr (''Line: Unknown Line\<newline>Status: ''
                @ py_str rt (dict_get (first_status r) ''statusSeverityDescription''
                               (JStr ''Unknown''))
                @ (if truthy (dict_get (first_status r) ''reason'' (JStr []))
                   then ''\<newline>Reason: ''
                        @ py_str rt (dict_get (first_status r) ''reason'' (JStr []))
                   else [])
                @ ''\<newline>---'')"
  using assms by (simp add: format_line_status_text dict_get_missing py_str_JStr)

lemma arrival_line_missing:
  assumes "map_of r ''lineName'' = None"
  shows "fst (format_arrival rt env (JObj r) w)
         = Inr (''Line: Unknown Line\<newline>Platform: ''
                @ py_str rt (dict_get r ''platformName'' (JStr ''Unknown Platform''))
                @ ''\<newline>Destination: ''
                @ py_str rt (dict_get r ''destinationName'' (JStr ''Unknown Destination''))
                @ ''\<newline>Arrival: '' @ fst (arrival_time_desc rt env (JObj r) w)
                @ ''\<newline>---'')"
  using assms by (simp add: format_arrival_text dict_get_missing py_str_JStr)

lemma arrival_platform_missing:
  assumes "map_of r ''platformName'' = None"
  shows "fst (format_arrival rt env (JObj r) w)
         = Inr (''Line: '' @ py_str rt (dict_get r ''lineName'' (JStr ''Unknown Line''))
                @ ''\<newline>Platform: Unknown Platform\<newline>Destination: ''
                @ py_str rt (dict_get r ''destinationName'' (JStr ''Unknown Destination''))
                @ ''\<newline>Arrival: '' @ fst (arrival_time_desc rt env (JObj r) w)
                @ ''\<newline>---'')"
  using assms by (simp add: format_arrival_text dict_get_missing py_str_JStr)

lemma arrival_destination_missing:
  assumes "map_of r ''destinationName'' = None"
  shows "fst (format_arrival rt env (JObj r) w)
         = Inr (''Line: '' @ py_str rt (dict_get r ''lineName'' (JStr ''Unknown Line''))
                @ ''\<newline>Platform: ''
                @ py_str rt (dict_get r ''platformName'' (JStr ''Unknown Platform''))
                @ ''\<newline>Destination: Unknown Destination\<newline>Arrival: ''
                @ fst (arrival_time_desc rt env (JObj r) w)
                @ ''\<newline>---'')"
  using assms by (simp add: format_arrival_text dict_get_missing py_str_JStr)

lemma arrival_expected_missing:
  assumes "map_of r ''expectedArrival'' = None"
  shows "fst (format_arrival rt env (JObj r) w)
         = Inr (''Line: '' @ py_str rt (dict_get r ''lineName'' (JStr ''Unknown Line''))
                @ ''\<newline>Platform: ''
                @ py_str rt (dict_get r ''platformName'' (JStr ''Unknown Platform''))
                @ ''\<newline>Destination: ''
                @ py_str rt (dict_get r ''destinationName'' (JStr ''Unknown Destination''))
                @ ''\<newline>Arrival: Time unknown\<newline>---'')"
  using assms by (simp add: format_arrival_text arrival_time_missing)

lemma bike_name_missing:
  assumes "map_of r ''commonName'' = None \<and> bike_ok r"
  shows "format_bike_point rt (JObj r)
         = Inr (''Location: Unknown Location\<newline>Bikes Available: ''
                @ py_str rt (property_value ''NbBikes''
                     (list_items (dict_get r ''additionalProperties'' (JArr [])))
                     (JStr ''Unknown''))
                @ ''\<newline>Empty Docks: ''
                @ py_str rt (property_value ''NbEmptyDocks''
                     (list_items (dict_get r ''additionalProperties'' (JArr [])))
                     (JStr ''Unknown''))
                @ ''\<newline>---'')"
  using assms by (simp add: format_bike_point_text dict_get_missing py_str_JStr)

lemma bike_properties_missing:
  assumes "list_all (\<lambda>p. dict_get (dict_fields p) ''key'' JNull \<noteq> JStr ''NbBikes''
                        \<and> dict_get (dict_fields p) ''key'' JNull \<noteq> JStr ''NbEmptyDocks'')
             (list_items (dict_get r ''additionalProperties'' (JArr []))) \<and> bike_ok r"
  shows "format_bike_point rt (JObj r)
         = Inr (''Location: ''
                @ py_str rt (dict_get r ''commonName'' (JStr ''Unknown Location''))
                @ ''\<newline>Bikes Available: Unknown\<newline>Empty Docks: Unknown\<newline>---'')"
proof -
  let ?ps = "list_items (dict_get r ''additionalProperties'' (JArr []))"
  from assms have
    "list_all (\<lambda>p. dict_get (dict_fields p) ''key'' JNull \<noteq> JStr ''NbBikes'') ?ps"
    and "list_all (\<lambda>p. dict_get (dict_fields p) ''key'' JNull \<noteq> JStr ''NbEmptyDocks'') ?ps"
    by (simp_all add: list_all_iff)
  then have "property_value ''NbBikes'' ?ps (JStr ''Unknown'') = JStr ''Unknown''"
    and "property_value ''NbEmptyDocks'' ?ps (JStr ''Unknown'') = JStr ''Unknown''"
    by (simp_all only: property_value_missing)
  with assms show ?thesis
    by (simp add: format_bike_point_text py_str_JStr)
qed

lemma station_name_missing:
  assumes "map_of r ''commonName'' = None \<and> station_ok r"
  shows "format_station_info rt (JObj r)
         = Inr (''Station: Unknown Station\<newline>Transport Modes: ''
                @ join '', '' (map the_str (list_items (dict_get r ''modes'' (JArr []))))
                @ ''\<newline>Zones: ''
                @ join '', '' (map (py_str rt) (list_items (dict_get r ''zones'' (JArr []))))
                @ ''\<newline>Lines: ''
                @ join '', '' (entry_strs ''name'' (list_items (dict_get r ''lines'' (JArr []))))
                @ ''\<newline>''
                @ (if of_category ''Facility''
                        (list_items (dict_get r ''additionalProperties'' (JArr []))) = []
                   then []
                   else ''Facilities: ''
                        @ join '', '' (entry_strs ''key'' (of_category ''Facility''
                            (list_items (dict_get r ''additionalProperties'' (JArr [])))))
                        @ ''\<newline>'')
                @ (if of_category ''Accessibility''
                        (list_items (dict_get r ''additionalProperties'' (JArr []))) = []
                   then []
                   else ''Accessibility: ''
                        @ join '', '' (entry_strs ''key'' (of_category ''Accessibility''
                            (list_items (dict_get r ''additionalProperties'' (JArr [])))))
                        @ ''\<newline>'')
                @ ''---'')"
proof -
  from assms have n: "dict_get r ''commonName'' (JStr ''Unknown Station'') = JStr ''Unknown Station''"
    by (simp add: dict_get_missing)
  from assms have "station_ok r"
    by simp
  then show ?thesis
    by (simp only: format_station_info_text n py_str_JStr) simp
qed

lemma station_lists_missing:
  assumes "map_of r ''modes'' = None \<and> map_of r ''zones'' = None \<and> map_of r ''lines'' = None
           \<and> map_of r ''additionalProperties'' = None"
  shows "format_station_info rt (JObj r)
         = Inr (''Station: ''
                @ py_str rt (dict_get r ''commonName'' (JStr ''Unknown Station''))
                @ ''\<newline>Transport Modes: \<newline>Zones: \<newline>Lines: \<newline>---'')"
proof -
  from assms have "station_ok r"
    by (simp add: station_ok_def field_ok_def)
  then have "format_station_info rt (JObj r)
         = Inr (''Station: ''
                @ py_str rt (dict_get r ''commonName'' (JStr ''Unknown Station''))
                @ ''\<newline>Transport Modes: ''
                @ join '', '' (map the_str (list_items (dict_get r ''modes'' (JArr []))))
                @ ''\<newline>Zones: ''
                @ join '', '' (map (py_str rt) (list_items (dict_get r ''zones'' (JArr []))))
                @ ''\<newline>Lines: ''
                @ join '', '' (entry_strs ''name'' (list_items (dict_get r ''lines'' (JArr []))))
                @ ''\<newline>''
                @ (if of_category ''Facility''
                        (list_items (dict_get r ''additionalProperties'' (JArr []))) = []
                   then []
                   else ''Facilities: ''
                        @ join '', '' (entry_strs ''key'' (of_category ''Facility''
                            (list_items (dict_get r ''additionalProperties'' (JArr [])))))
                        @ ''\<newline>'')
                @ (if of_category ''Accessibility''
                        (list_items (dict_get r ''additionalProperties'' (JArr []))) = []
                   then []
                   else ''Accessibility: ''
                        @ join '', '' (entry_strs ''key'' (of_category ''Accessibility''
                            (list_items (dict_get r ''additionalProperties'' (JArr [])))))
                        @ ''\<newline>'')
                @ ''---'')"
    by (rule format_station_info_text)
  moreover from assms have "dict_get r ''modes'' (JArr []) = JArr []"
    and "dict_get r ''zones'' (JArr []) = JArr []"
    and "dict_get r ''lines'' (JArr []) = JArr []"
    and "dict_get r ''additionalProperties'' (JArr []) = JArr []"
    by (simp_all add: dict_get_missing)
  ultimately show ?thesis
    by (simp add: entry_strs_def of_category_def)
qed

lemma number_0f_zero: "number_0f rt (JInt 0) = ''0''"
  by (simp add: number_0f_def show_int_0)

lemma stop_name_missing:
  assumes "map_of r ''commonName'' = None \<and> stop_ok r"
  shows "format_nearby_stop rt (JObj r)
         = Inr (''Stop: Unknown Location\<newline>Distance: ''
                @ number_0f rt (dict_get r ''distance'' (JInt 0))
                @ ''m\<newline>Modes: ''
                @ join '', '' (map the_str (list_items (dict_get r ''modes'' (JArr []))))
                @ ''\<newline>Lines: ''
                @ join '', '' (entry_strs ''name'' (list_items (dict_get r ''lines'' (JArr []))))
                @ ''\<newline>---'')"
  using assms by (simp add: format_nearby_stop_text dict_get_missing py_str_JStr)

lemma stop_distance_missing:
  assumes "map_of r ''distance'' = None \<and> stop_ok r"
  shows "format_nearby_stop rt (JObj r)
         = Inr (''Stop: '' @ py_str rt (dict_get r ''commonName'' (JStr ''Unknown Location''))
                @ ''\<newline>Distance: 0m\<newline>Modes: ''
                @ join '', '' (map the_str (list_items (dict_get r ''modes'' (JArr []))))
                @ ''\<newline>Lines: ''
                @ join '', '' (entry_strs ''name'' (list_items (dict_get r ''lines'' (JArr []))))
                @ ''\<newline>---'')"
  using assms by (simp add: format_nearby_stop_text dict_get_missing number_0f_zero)

lemma stop_lists_missing:
  assumes "map_of r ''modes'' = None \<and> map_of r ''lines'' = None \<and> stop_ok r"
  shows "format_nearby_stop rt (JObj r)
         = Inr (''Stop: '' @ py_str rt (dict_get r ''commonName'' (JStr ''Unknown Location''))
                @ ''\<newline>Distance: '' @ number_0f rt (dict_get r ''distance'' (JInt 0))
                @ ''m\<newline>Modes: \<newline>Lines: \<newline>---'')"
  using assms
  by (simp add: format_nearby_stop_text dict_get_missing entry_strs_def)

lemma insort_key_pairs:
  "insort_key fst (f x, x) (map (\<lambda>y. (f y, y)) ys)
     = map (\<lambda>y. (f y, y)) (insort_key f x ys)"
  by (induction ys) simp_all

lemma sort_key_pairs:
  "sort_key fst (map (\<lambda>y. (f y, y)) xs) = map (\<lambda>y. (f y, y)) (sort_key f xs)"
  by (induction xs) (simp_all add: insort_key_pairs)

lemma zip_keys: "zip (map f xs) xs = map (\<lambda>y. (f y, y)) xs"
  by (induction xs) simp_all

lemma sort_by_zipped_keys: "map snd (sort_key fst (zip (map f xs) xs)) = sort_key f xs"
  by (simp add: zip_keys sort_key_pairs comp_def)

lemma sort_key_short: "length xs \<le> 1 \<Longrightarrow> sort_key f xs = xs"
  by (cases xs) simp_all

lemma arrival_keys:
  "list_all (dict_with_str ''expectedArrival'') xs \<Longrightarrow>
     mapE (\<lambda>x. py_get x ''expectedArrival'' (JStr [])) xs
       = Inr (map (\<lambda>x. JStr (expected_arrival_key x)) xs)"
proof (induction xs)
  case Nil
  then show ?case by simp
next
  case (Cons x xs)
  then obtain kvs where x: "x = JObj kvs"
    and k: "is_str (dict_get kvs ''expectedArrival'' (JStr []))"
    using dict_with_str_obtain [of "''expectedArrival''" x] by auto
  from k obtain s where s: "dict_get kvs ''expectedArrival'' (JStr []) = JStr s"
    using is_str_obtain by blast
  from Cons show ?case
    unfolding x by (simp add: s)
qed

lemma list_sort_arrivals:
  assumes "list_all (dict_with_str ''expectedArrival'') xs"
  shows "list_sort rt (\<lambda>x. py_get x ''expectedArrival'' (JStr [])) xs
         = Inr (sort_key expected_arrival_key xs)"
proof -
  have s: "list_all is_str (map (\<lambda>x. JStr (expected_arrival_key x)) xs)"
    by (simp add: list_all_iff)
  have m: "map the_str (map (\<lambda>x. JStr (expected_arrival_key x)) xs)
             = map expected_arrival_key xs"
    by simp
  show ?thesis
    unfolding list_sort_def arrival_keys [OF assms]
    by (simp only: bindE_Inr s m sort_by_zipped_keys if_True)
      (simp add: sort_key_short)
qed

lemma format_arrivals_dicts:
  "list_all is_dict ys \<Longrightarrow>
     \<exists>bs w'. format_arrivals rt env ys w = (Inr bs, w') \<and> length bs = length ys"
proof (induction ys arbitrary: w)
  case Nil
  then show ?case by simp
next
  case (Cons y ys)
  then obtain kvs where y: "y = JObj kvs"
    using is_dict_obtain [of y] by auto
  obtain b where b: "fst (format_arrival rt env (JObj kvs) w) = Inr b"
    using format_arrival_text [of rt env kvs w] by blast
  obtain w1 where w1: "format_arrival rt env (JObj kvs) w = (Inr b, w1)"
    using b by (cases "format_arrival rt env (JObj kvs) w") simp
  from Cons obtain bs w' where "format_arrivals rt env ys w1 = (Inr bs, w')"
    and "length bs = length ys"
    by fastforce
  then show ?case
    unfolding y by (simp add: w1)
qed

lemma dict_with_str_is_dict: "dict_with_str k x \<Longrightarrow> is_dict x"
  by (cases x) simp_all

lemma sorted_take_keys: "sorted (map f (take n (sort_key f xs)))"
proof -
  have "sorted (map f (sort_key f xs))"
    by (rule sorted_sort_key)
  then have "sorted (take n (map f (sort_key f xs)))"
    by (rule sorted_wrt_take)
  then show ?thesis
    by (simp add: take_map)
qed

lemma get_arrivals_sorted:
  assumes "py_strip (dict_get args ''station'' (JStr [])) = Inr st" and "st \<noteq> []"
    and "no_matches (search_step env st w) = Inr False"
    and "first_match_id (search_step env st w) = Inr sid"
    and "fst (make_tfl_request env (''StopPoint/'' @ py_str rt sid @ ''/Arrivals'') None
               (w\<lparr>sent := sent w @ [search_request env st]\<rparr>)) = JArr xs"
    and "xs \<noteq> []" and "list_all (dict_with_str ''expectedArrival'') xs"
  shows "\<exists>blocks w'.
      format_arrivals rt env (take 10 (sort_key expected_arrival_key xs))
        (w\<lparr>sent := sent w @ [search_request env st,
                               tfl_request env
                                 (''StopPoint/'' @ py_str rt sid @ ''/Arrivals'') None]\<rparr>)
        = (Inr blocks, w')
      \<and> get_arrivals rt env args w
          = (text_result (''Next arrivals at '' @ st @ '':\<newline>\<newline>''
                          @ join ''\<newline>'' blocks), w')
      \<and> length blocks = min 10 (length xs)"
proof -
  let ?w1 = "w\<lparr>sent := sent w @ [search_request env st]\<rparr>"
  let ?e2 = "''StopPoint/'' @ py_str rt sid @ ''/Arrivals''"
  let ?w2 = "w\<lparr>sent := sent w @ [search_request env st, tfl_request env ?e2 None]\<rparr>"
  let ?ys = "take 10 (sort_key expected_arrival_key xs)"
  have q1: "make_tfl_request env (''StopPoint/Search/'' @ st) (Some [(''modes'', MODES)]) w
              = (search_step env st w, ?w1)"
    using make_tfl_request_pair [of env "''StopPoint/Search/'' @ st" "Some [(''modes'', MODES)]" w]
    by (simp add: search_step_def search_request_def)
  have q2: "make_tfl_request env ?e2 None ?w1 = (JArr xs, ?w2)"
    using make_tfl_request_pair [of env ?e2 None ?w1] assms(5) by simp
  have srt: "py_sort rt (\<lambda>x. py_get x ''expectedArrival'' (JStr [])) (JArr xs)
               = Inr (JArr (sort_key expected_arrival_key xs))"
    by (simp add: list_sort_arrivals [OF assms(7)])
  have "list_all is_dict xs"
    using assms(7) by (auto simp: list_all_iff intro: dict_with_str_is_dict)
  then have "list_all is_dict ?ys"
    by (auto simp: list_all_iff dest: in_set_takeD)
  then obtain blocks w' where fa: "format_arrivals rt env ?ys ?w2 = (Inr blocks, w')"
    and len: "length blocks = length ?ys"
    using format_arrivals_dicts by blast
  have "get_arrivals rt env args w
          = (text_result (''Next arrivals at '' @ st @ '':\<newline>\<newline>''
                          @ join ''\<newline>'' blocks), w')"
    unfolding get_arrivals_def
    using assms(1-4,6) by (simp add: q1 q2 srt fa del: py_sort.simps append_Cons)
  with fa len show ?thesis
    by simp
qed

lemma iso_aware_length: "iso_aware s = Some t \<Longrightarrow> length s = 25"
  by (simp add: iso_aware_def iso_shape_def split: if_splits)

lemma format_arrival_aware:
  assumes "map_of r ''expectedArrival'' = Some (JStr s)"
    and "iso_aware (replace_Z s) = Some t"
    and "trunc_minutes (t - clock env (reads w)) = m"
  shows "format_arrival rt env (JObj r) w
         = (Inr (''Line: '' @ py_str rt (dict_get r ''lineName'' (JStr ''Unknown Line''))
                 @ ''\<newline>Platform: ''
                 @ py_str rt (dict_get r ''platformName'' (JStr ''Unknown Platform''))
                 @ ''\<newline>Destination: ''
                 @ py_str rt (dict_get r ''destinationName'' (JStr ''Unknown Destination''))
                 @ ''\<newline>Arrival: ''
                 @ (if 0 < m then show_int m @ '' minutes'' else ''Due'')
                 @ ''\<newline>---''),
            w\<lparr>reads := Suc (reads w)\<rparr>)"
proof -
  have len: "\<not> length (replace_Z s) < 7"
    using iso_aware_length [OF assms(2)] by simp
  have "arrival_time_desc rt env (JObj r) w
          = (if 0 < m then show_int m @ '' minutes'' else ''Due'', w\<lparr>reads := Suc (reads w)\<rparr>)"
    using assms len
    by (simp add: arrival_time_desc_def dict_get_def fromisoformat_def datetime_now_def)
  then show ?thesis
    by (simp add: format_arrival_def)
qed

section \<open>The upstream client never raises\<close>

text \<open>
  Claim C7. For every endpoint and parameter mapping, \<^verbatim>\<open>make_tfl_request\<close> returns to its
  caller: when there is no response (transport error, timeout), when the status is not
  2xx, or when the body is not JSON, it returns \<^verbatim>\<open>None\<close>; on a 2xx response with a JSON
  body it returns the parsed body. In each case exactly the one request has been issued.
\<close>

theorem make_tfl_request_never_raises:
  "make_tfl_request env endpoint ps w =
     (case http_get env (length (sent w)) (tfl_request env endpoint ps) of
        NoResponse \<Rightarrow> JNull
      | Response status body \<Rightarrow>
          if 200 \<le> status \<and> status < 300
          then (case body of None \<Rightarrow> JNull | Some j \<Rightarrow> j)
          else JNull,
      w\<lparr>sent := sent w @ [tfl_request env endpoint ps]\<rparr>)"
  by (simp add: make_tfl_request_def try_get_def Let_def split: http_result.splits option.splits)

section \<open>Missing and blank arguments\<close>

text \<open>
  Claim C1, as amended. For \<^verbatim>\<open>get-line-status\<close>, \<^verbatim>\<open>get-arrivals\<close>, \<^verbatim>\<open>search-bike-points\<close>
  and \<^verbatim>\<open>get-station-info\<close>, a required argument that is missing, or whose stripped str
  value is blank, raises \<^verbatim>\<open>ValueError\<close> and leaves the world as it was: no upstream call is
  issued. For \<^verbatim>\<open>find-stops-by-radius\<close>, a missing (or null) \<^verbatim>\<open>lat\<close> or \<^verbatim>\<open>lon\<close> raises and
  no upstream call is issued. A call with no arguments at all raises \<^verbatim>\<open>ValueError\<close> for
  every tool. A missing \<^verbatim>\<open>radius\<close> is not an error: with \<^verbatim>\<open>lat\<close> and \<^verbatim>\<open>lon\<close> given, the
  upstream call is issued with the radius 1000.
\<close>

theorem missing_or_blank_argument:
  "((name, key) \<in> set [(''get-line-status'', ''lines''), (''get-arrivals'', ''station''),
                       (''search-bike-points'', ''location''), (''get-station-info'', ''station'')]
      \<and> blank_argument args key
      \<longrightarrow> (\<exists>msg. handle_call_tool rt env name (Some args) w = (Inl (ValueError msg), w)))
   \<and> (dict_get args ''lat'' JNull = JNull \<or> dict_get args ''lon'' JNull = JNull
      \<longrightarrow> (\<exists>e. handle_call_tool rt env ''find-stops-by-radius'' (Some args) w = (Inl e, w)))
   \<and> handle_call_tool rt env name None w = (Inl (ValueError ''Missing arguments''), w)
   \<and> handle_call_tool rt env name (Some []) w = (Inl (ValueError ''Missing arguments''), w)
   \<and> (dict_get args ''lat'' JNull \<noteq> JNull \<and> dict_get args ''lon'' JNull \<noteq> JNull
        \<and> map_of args ''radius'' = None
      \<longrightarrow> snd (handle_call_tool rt env ''find-stops-by-radius'' (Some args) w)
          = w\<lparr>sent := sent w @ [radius_request env (dict_get args ''lat'' JNull)
                        (dict_get args ''lon'' JNull) (JInt 1000)]\<rparr>)"
proof (intro conjI impI)
  assume "(name, key) \<in> set [(''get-line-status'', ''lines''), (''get-arrivals'', ''station''),
                       (''search-bike-points'', ''location''), (''get-station-info'', ''station'')]
      \<and> blank_argument args key"
  then show "\<exists>msg. handle_call_tool rt env name (Some args) w = (Inl (ValueError msg), w)"
    by (elim conjE) (rule string_tool_blank)
next
  assume a: "dict_get args ''lat'' JNull = JNull \<or> dict_get args ''lon'' JNull = JNull"
  show "\<exists>e. handle_call_tool rt env ''find-stops-by-radius'' (Some args) w = (Inl e, w)"
  proof (cases "args = []")
    case True
    then show ?thesis by (simp add: handle_empty)
  next
    case False
    then show ?thesis
      using find_stops_raises [OF a, of rt env w] by (simp add: handle_find_stops)
  qed
next
  show "handle_call_tool rt env name None w = (Inl (ValueError ''Missing arguments''), w)"
    by (simp add: handle_call_tool_def)
next
  show "handle_call_tool rt env name (Some []) w = (Inl (ValueError ''Missing arguments''), w)"
    by (rule handle_empty)
next
  assume a: "dict_get args ''lat'' JNull \<noteq> JNull \<and> dict_get args ''lon'' JNull \<noteq> JNull
        \<and> map_of args ''radius'' = None"
  then have r: "py_min_int (dict_get args ''radius'' (JInt 1000)) 1000 = Inr (JInt 1000)"
    by (simp add: dict_get_def)
  from a have ne: "args \<noteq> []"
    by (elim conjE) (rule args_nonempty)
  show "snd (handle_call_tool rt env ''find-stops-by-radius'' (Some args) w)
          = w\<lparr>sent := sent w @ [radius_request env (dict_get args ''lat'' JNull)
                        (dict_get args ''lon'' JNull) (JInt 1000)]\<rparr>"
    using find_stops_world [OF _ _ r, of rt env w] a
    by (simp add: handle_find_stops [OF ne])
qed

theorem missing_or_blank_argument_witness:
  "(\<exists>msg. handle_call_tool plain_runtime (scripted [] 0 0) ''get-arrivals''
            (Some [(''station'', JStr ''   '')]) fresh = (Inl (ValueError msg), fresh))
   \<and> (\<exists>msg. handle_call_tool plain_runtime (scripted [] 0 0) ''get-line-status''
            (Some [(''line'', JStr ''victoria'')]) fresh = (Inl (ValueError msg), fresh))
   \<and> (\<exists>e. handle_call_tool plain_runtime (scripted [] 0 0) ''find-stops-by-radius''
            (Some [(''lon'', JInt 0), (''radius'', JInt 500)]) fresh = (Inl e, fresh))
   \<and> snd (handle_call_tool plain_runtime (scripted [] 0 0) ''find-stops-by-radius''
            (Some [(''lat'', JInt 51), (''lon'', JInt 0)]) fresh)
       = fresh\<lparr>sent := [radius_request (scripted [] 0 0) (JInt 51) (JInt 0) (JInt 1000)]\<rparr>"
  using missing_or_blank_argument [of "''get-arrivals''" "''station''"
          "[(''station'', JStr ''   '')]" plain_runtime "scripted [] 0 0" fresh]
        missing_or_blank_argument [of "''get-line-status''" "''lines''"
          "[(''line'', JStr ''victoria'')]" plain_runtime "scripted [] 0 0" fresh]
        missing_or_blank_argument [of _ _
          "[(''lon'', JInt 0), (''radius'', JInt 500)]" plain_runtime "scripted [] 0 0" fresh]
        missing_or_blank_argument [of _ _
          "[(''lat'', JInt 51), (''lon'', JInt 0)]" plain_runtime "scripted [] 0 0" fresh]
  by (simp add: blank_argument_def strip_def py_isspace_def dict_get_def fresh_def)

text \<open>
  The claim as stated fails for \<^verbatim>\<open>find-stops-by-radius\<close>: with \<^verbatim>\<open>radius\<close> missing, the
  handler raises nothing and issues the upstream call, with the radius 1000.
\<close>

theorem missing_radius_counterexample:
  "handle_call_tool plain_runtime (scripted [] 0 0) ''find-stops-by-radius''
     (Some [(''lat'', JInt 51), (''lon'', JInt 0)]) fresh
   = (Inr [TextContent ''Failed to find stops within 1000m of 51, 0''],
      \<lparr>sent = [\<lparr>url = ''https://api.tfl.gov.uk/StopPoint'',
                params = [(''app_key'', JStr ''key''), (''app_id'', JStr ''id''),
                          (''lat'', JInt 51), (''lon'', JInt 0), (''radius'', JInt 1000),
                          (''modes'', JStr ''tube,overground,dlr'')]\<rparr>],
       reads = 0\<rparr>)"
  by code_simp

section \<open>The radius sent upstream\<close>

text \<open>
  Claim C2, as amended. Whenever \<^verbatim>\<open>find-stops-by-radius\<close> is invoked with \<^verbatim>\<open>lat\<close> and
  \<^verbatim>\<open>lon\<close> given, it issues exactly one request, and the radius sent is 1000 when the
  requested radius is absent or greater than 1000, and the requested radius otherwise: an
  int or a float of at most 1000 (zero and negative numbers included) and a bool go
  upstream unchanged. A radius that is not a number raises \<^verbatim>\<open>TypeError\<close> and nothing is
  sent.
\<close>

theorem radius_sent_upstream:
  assumes "dict_get args ''lat'' JNull \<noteq> JNull" and "dict_get args ''lon'' JNull \<noteq> JNull"
  shows
    "(map_of args ''radius'' = None \<longrightarrow>
        snd (handle_call_tool rt env ''find-stops-by-radius'' (Some args) w)
        = w\<lparr>sent := sent w @ [radius_request env (dict_get args ''lat'' JNull)
                                 (dict_get args ''lon'' JNull) (JInt 1000)]\<rparr>)
   \<and> (map_of args ''radius'' = Some (JInt i) \<longrightarrow>
        snd (handle_call_tool rt env ''find-stops-by-radius'' (Some args) w)
        = w\<lparr>sent := sent w @ [radius_request env (dict_get args ''lat'' JNull)
                                 (dict_get args ''lon'' JNull)
                                 (JInt (if 1000 < i then 1000 else i))]\<rparr>)
   \<and> (map_of args ''radius'' = Some (JFloat x) \<longrightarrow>
        snd (handle_call_tool rt env ''find-stops-by-radius'' (Some args) w)
        = w\<lparr>sent := sent w @ [radius_request env (dict_get args ''lat'' JNull)
                                 (dict_get args ''lon'' JNull)
                                 (if 1000 < x then JInt 1000 else JFloat x)]\<rparr>)
   \<and> (map_of args ''radius'' = Some (JBool b) \<longrightarrow>
        snd (handle_call_tool rt env ''find-stops-by-radius'' (Some args) w)
        = w\<lparr>sent := sent w @ [radius_request env (dict_get args ''lat'' JNull)
                                 (dict_get args ''lon'' JNull) (JBool b)]\<rparr>)
   \<and> (py_min_int (dict_get args ''radius'' (JInt 1000)) 1000 = Inl e \<longrightarrow>
        handle_call_tool rt env ''find-stops-by-radius'' (Some args) w = (Inl e, w))"
proof -
  have ne: "args \<noteq> []"
    using assms(1) by (rule args_nonempty)
  note h = handle_find_stops [OF ne]
  note fw = find_stops_world [OF assms, of _ rt env w]
  show ?thesis
  proof (intro conjI impI)
    assume "map_of args ''radius'' = None"
    then have "py_min_int (dict_get args ''radius'' (JInt 1000)) 1000 = Inr (JInt 1000)"
      by (simp add: dict_get_def)
    then show "snd (handle_call_tool rt env ''find-stops-by-radius'' (Some args) w)
        = w\<lparr>sent := sent w @ [radius_request env (dict_get args ''lat'' JNull)
                                 (dict_get args ''lon'' JNull) (JInt 1000)]\<rparr>"
      by (simp only: h fw)
  next
    assume "map_of args ''radius'' = Some (JInt i)"
    then have "py_min_int (dict_get args ''radius'' (JInt 1000)) 1000
                 = Inr (JInt (if 1000 < i then 1000 else i))"
      by (simp add: dict_get_def)
    then show "snd (handle_call_tool rt env ''find-stops-by-radius'' (Some args) w)
        = w\<lparr>sent := sent w @ [radius_request env (dict_get args ''lat'' JNull)
                                 (dict_get args ''lon'' JNull)
                                 (JInt (if 1000 < i then 1000 else i))]\<rparr>"
      by (simp only: h fw)
  next
    assume "map_of args ''radius'' = Some (JFloat x)"
    then have "py_min_int (dict_get args ''radius'' (JInt 1000)) 1000
                 = Inr (if 1000 < x then JInt 1000 else JFloat x)"
      by (simp add: dict_get_def)
    then show "snd (handle_call_tool rt env ''find-stops-by-radius'' (Some args) w)
        = w\<lparr>sent := sent w @ [radius_request env (dict_get args ''lat'' JNull)
                                 (dict_get args ''lon'' JNull)
                                 (if 1000 < x then JInt 1000 else JFloat x)]\<rparr>"
      by (simp only: h fw)
  next
    assume "map_of args ''radius'' = Some (JBool b)"
    then have "py_min_int (dict_get args ''radius'' (JInt 1000)) 1000 = Inr (JBool b)"
      by (simp add: dict_get_def)
    then show "snd (handle_call_tool rt env ''find-stops-by-radius'' (Some args) w)
        = w\<lparr>sent := sent w @ [radius_request env (dict_get args ''lat'' JNull)
                                 (dict_get args ''lon'' JNull) (JBool b)]\<rparr>"
      by (simp only: h fw)
  next
    assume "py_min_int (dict_get args ''radius'' (JInt 1000)) 1000 = Inl e"
    then show "handle_call_tool rt env ''find-stops-by-radius'' (Some args) w = (Inl e, w)"
      by (simp only: h find_stops_type_error)
  qed
qed

text \<open>The example of the specification: a requested radius of 2000 is sent as 1000.\<close>

theorem radius_sent_upstream_witness:
  "snd (handle_call_tool plain_runtime (scripted [] 0 0) ''find-stops-by-radius''
          (Some [(''lat'', JFloat 51.5), (''lon'', JFloat (- 0.1)), (''radius'', JInt 2000)]) fresh)
   = \<lparr>sent = [\<lparr>url = ''https://api.tfl.gov.uk/StopPoint'',
               params = [(''app_key'', JStr ''key''), (''app_id'', JStr ''id''),
                         (''lat'', JFloat 51.5), (''lon'', JFloat (- 0.1)),
                         (''radius'', JInt 1000), (''modes'', JStr ''tube,overground,dlr'')]\<rparr>],
      reads = 0\<rparr>"
  using radius_sent_upstream [where args = "[(''lat'', JFloat 51.5), (''lon'', JFloat (- 0.1)),
          (''radius'', JInt 2000)]" and i = 2000 and rt = plain_runtime
          and env = "scripted [] 0 0" and w = fresh]
  by (simp add: dict_get_def radius_request_def scripted_def fresh_def opt_str_def)

text \<open>
  The claim as stated fails at the radius zero: \<^verbatim>\<open>min(0, 1000)\<close> is 0, and 0 is what is
  sent, not 1000.
\<close>

theorem radius_zero_counterexample:
  "snd (handle_call_tool plain_runtime (scripted [] 0 0) ''find-stops-by-radius''
          (Some [(''lat'', JFloat 51.5), (''lon'', JFloat (- 0.1)), (''radius'', JInt 0)]) fresh)
   = \<lparr>sent = [\<lparr>url = ''https://api.tfl.gov.uk/StopPoint'',
               params = [(''app_key'', JStr ''key''), (''app_id'', JStr ''id''),
                         (''lat'', JFloat 51.5), (''lon'', JFloat (- 0.1)),
                         (''radius'', JInt 0), (''modes'', JStr ''tube,overground,dlr'')]\<rparr>],
      reads = 0\<rparr>"
  by (simp add: handle_call_tool_def find_stops_world dict_get_def radius_request_def
      scripted_def fresh_def opt_str_def)

section \<open>The credentials in every request\<close>

text \<open>
  Claim C8. The request that \<^verbatim>\<open>make_tfl_request\<close> issues carries the two credential
  parameters \<^verbatim>\<open>app_key\<close> and \<^verbatim>\<open>app_id\<close> merged with the caller's parameters (a dict, so
  its keys are distinct): each parameter of the caller is sent with the caller's value,
  also under the name of a credential, and a credential the caller does not name is sent
  with its configured value. Without parameters of the caller, the two credentials are
  all that is sent.
\<close>

theorem credentials_merged:
  assumes "distinct (map fst p)"
  shows "snd (make_tfl_request env endpoint ps w)
           = w\<lparr>sent := sent w @ [tfl_request env endpoint ps]\<rparr>
     \<and> map_of (params (tfl_request env endpoint (Some p))) k =
         (case map_of p k of
            Some v \<Rightarrow> Some v
          | None \<Rightarrow> if k = ''app_key'' then Some (opt_str (APP_KEY env))
                    else if k = ''app_id'' then Some (opt_str (APP_ID env))
                    else None)
     \<and> params (tfl_request env endpoint None)
         = [(''app_key'', opt_str (APP_KEY env)), (''app_id'', opt_str (APP_ID env))]"
proof (intro conjI)
  show "snd (make_tfl_request env endpoint ps w)
           = w\<lparr>sent := sent w @ [tfl_request env endpoint ps]\<rparr>"
    by (rule make_tfl_request_world)
next
  show "map_of (params (tfl_request env endpoint (Some p))) k =
         (case map_of p k of
            Some v \<Rightarrow> Some v
          | None \<Rightarrow> if k = ''app_key'' then Some (opt_str (APP_KEY env))
                    else if k = ''app_id'' then Some (opt_str (APP_ID env))
                    else None)"
  proof (cases "p = []")
    case True
    then show ?thesis by (simp add: tfl_request_def)
  next
    case False
    then show ?thesis
      using map_of_dict_update [OF assms] by (simp add: tfl_request_def split: option.splits)
  qed
next
  show "params (tfl_request env endpoint None)
         = [(''app_key'', opt_str (APP_KEY env)), (''app_id'', opt_str (APP_ID env))]"
    by (simp add: tfl_request_def)
qed

theorem credentials_merged_witness:
  "map_of (params (tfl_request (scripted [] 0 0) ''BikePoint/Search''
             (Some [(''app_key'', JStr ''mine''), (''query'', JStr ''Soho'')]))) ''app_key''
     = Some (JStr ''mine'')
   \<and> map_of (params (tfl_request (scripted [] 0 0) ''BikePoint/Search''
             (Some [(''app_key'', JStr ''mine''), (''query'', JStr ''Soho'')]))) ''app_id''
     = Some (JStr ''id'')
   \<and> map_of (params (tfl_request (scripted [] 0 0) ''BikePoint/Search''
             (Some [(''query'', JStr ''Soho'')]))) ''app_key''
     = Some (JStr ''key'')"
  using credentials_merged [where p = "[(''app_key'', JStr ''mine''), (''query'', JStr ''Soho'')]"
          and env = "scripted [] 0 0" and endpoint = "''BikePoint/Search''" and k = "''app_key''"]
        credentials_merged [where p = "[(''app_key'', JStr ''mine''), (''query'', JStr ''Soho'')]"
          and env = "scripted [] 0 0" and endpoint = "''BikePoint/Search''" and k = "''app_id''"]
        credentials_merged [where p = "[(''query'', JStr ''Soho'')]"
          and env = "scripted [] 0 0" and endpoint = "''BikePoint/Search''" and k = "''app_key''"]
  by (simp add: scripted_def opt_str_def)

section \<open>The line status of the Victoria line\<close>

text \<open>
  Claim C9. When \<^verbatim>\<open>get-line-status\<close> is invoked with \<^verbatim>\<open>lines="victoria"\<close> and the upstream
  answers the request for \<^verbatim>\<open>Line/victoria/Status\<close> with the single record of name
  \<^verbatim>\<open>Victoria\<close> and status \<^verbatim>\<open>Good Service\<close>, the tool returns one text block, which is
  exactly the header, an empty line, and the lines \<^verbatim>\<open>Line: Victoria\<close>,
  \<^verbatim>\<open>Status: Good Service\<close> and \<^verbatim>\<open>---\<close>; that one request is all it issues.
\<close>

theorem victoria_line_status:
  assumes "http_get env (length (sent w)) (tfl_request env ''Line/victoria/Status'' None)
             = Response 200 (Some victoria_body)"
  shows "handle_call_tool rt env ''get-line-status'' (Some [(''lines'', JStr ''victoria'')]) w
         = (Inr [TextContent
                  ''Current Line Statuses:\<newline>\<newline>Line: Victoria\<newline>Status: Good Service\<newline>---''],
            w\<lparr>sent := sent w @ [tfl_request env ''Line/victoria/Status'' None]\<rparr>)"
proof -
  have s: "strip ''victoria'' = ''victoria''"
    by (simp add: strip_def py_isspace_def)
  have l: "map strip (split_on CHR '','' ''victoria'') = [''victoria'']"
    by (simp add: s)
  have f: "format_line_status rt
             (JObj [(''name'', JStr ''Victoria''),
                    (''lineStatuses'',
                     JArr [JObj [(''statusSeverityDescription'', JStr ''Good Service'')]])])
           = Inr ''Line: Victoria\<newline>Status: Good Service\<newline>---''"
    by (simp add: format_line_status_def dict_get_def py_str_def)
  show ?thesis
    unfolding handle_call_tool_def get_line_status_def
    by (simp add: dict_get_def s l make_tfl_request_ok [OF assms] victoria_body_def f
        text_result_def Let_def del: split_on.simps)
qed

theorem victoria_line_status_witness:
  "handle_call_tool plain_runtime (scripted [Response 200 (Some victoria_body)] 0 0)
     ''get-line-status'' (Some [(''lines'', JStr ''victoria'')]) fresh
   = (Inr [TextContent
            ''Current Line Statuses:\<newline>\<newline>Line: Victoria\<newline>Status: Good Service\<newline>---''],
      \<lparr>sent = [\<lparr>url = ''https://api.tfl.gov.uk/Line/victoria/Status'',
                params = [(''app_key'', JStr ''key''), (''app_id'', JStr ''id'')]\<rparr>],
       reads = 0\<rparr>)"
  using victoria_line_status [where env = "scripted [Response 200 (Some victoria_body)] 0 0"
          and w = fresh and rt = plain_runtime]
  by (simp add: scripted_def fresh_def tfl_request_def TFL_API_BASE_def opt_str_def)

section \<open>The message that search-bike-points cannot return\<close>

text \<open>
  Claim C10. Whatever the arguments and whatever the upstream answers,
  \<^verbatim>\<open>search-bike-points\<close> never returns the message \<^verbatim>\<open>No bike points found near ...\<close>, for
  any location: the branch that builds it repeats the test \<^verbatim>\<open>not search_result\<close> of the
  branch before it. An empty (falsy) search result is reported as
  \<^verbatim>\<open>Failed to search for bike points near ...\<close> with the stripped location.
\<close>

theorem no_bike_points_unreachable:
  "fst (handle_call_tool rt env ''search-bike-points'' arguments w)
     \<noteq> text_result (''No bike points found near '' @ location)
   \<and> (py_strip (dict_get args ''location'' (JStr [])) = Inr loc \<and> loc \<noteq> []
        \<and> \<not> truthy (fst (make_tfl_request env ''BikePoint/Search''
                               (Some [(''query'', JStr loc)]) w))
      \<longrightarrow> fst (handle_call_tool rt env ''search-bike-points'' (Some args) w)
            = text_result (''Failed to search for bike points near '' @ loc))"
proof (intro conjI impI)
  show "fst (handle_call_tool rt env ''search-bike-points'' arguments w)
     \<noteq> text_result (''No bike points found near '' @ location)"
  proof (cases arguments)
    case None
    then show ?thesis by (simp add: handle_call_tool_def text_result_def)
  next
    case (Some a)
    show ?thesis
    proof (cases "a = []")
      case True
      with Some show ?thesis by (simp add: handle_empty text_result_def)
    next
      case False
      with Some show ?thesis
        by (simp only: handle_search_bike_points search_bike_points_never not_False_eq_True)
    qed
  qed
next
  assume a: "py_strip (dict_get args ''location'' (JStr [])) = Inr loc \<and> loc \<noteq> []
        \<and> \<not> truthy (fst (make_tfl_request env ''BikePoint/Search''
                               (Some [(''query'', JStr loc)]) w))"
  then have "args \<noteq> []"
    by (auto simp: dict_get_def strip_def)
  then show "fst (handle_call_tool rt env ''search-bike-points'' (Some args) w)
            = text_result (''Failed to search for bike points near '' @ loc)"
    using a by (simp add: handle_search_bike_points search_bike_points_failed)
qed

theorem no_bike_points_unreachable_witness:
  "fst (handle_call_tool plain_runtime (scripted [Response 200 (Some (JArr []))] 0 0)
          ''search-bike-points'' (Some [(''location'', JStr ''Soho'')]) fresh)
     \<noteq> text_result ''No bike points found near Soho''
   \<and> fst (handle_call_tool plain_runtime (scripted [Response 200 (Some (JArr []))] 0 0)
          ''search-bike-points'' (Some [(''location'', JStr ''Soho'')]) fresh)
     = text_result ''Failed to search for bike points near Soho''"
  using no_bike_points_unreachable [where rt = plain_runtime
          and env = "scripted [Response 200 (Some (JArr []))] 0 0"
          and arguments = "Some [(''location'', JStr ''Soho'')]"
          and args = "[(''location'', JStr ''Soho'')]" and loc = "''Soho''"
          and location = "''Soho''" and w = fresh]
  by (simp add: dict_get_def strip_def py_isspace_def make_tfl_request_def try_get_def
      scripted_def fresh_def text_result_def)

section \<open>Resolving a station by search\<close>

text \<open>
  Claim C6. For \<^verbatim>\<open>get-arrivals\<close> and \<^verbatim>\<open>get-station-info\<close> with a station that is not
  blank: when the search step returns an absent (falsy) result, or an object whose
  \<^verbatim>\<open>matches\<close> are missing or empty, the tool returns \<^verbatim>\<open>Could not find station: ...\<close> and
  the search request is the only one issued. When the search step returns an object whose
  \<^verbatim>\<open>matches\<close> start with a match that has an \<^verbatim>\<open>id\<close>, exactly two requests are issued, the
  search and the detail fetch for that first identifier, whatever the other matches are.
\<close>

theorem resolve_by_search:
  assumes "name = ''get-arrivals'' \<or> name = ''get-station-info''"
    and "py_strip (dict_get args ''station'' (JStr [])) = Inr st" and "st \<noteq> []"
  shows
    "(\<not> truthy (search_step env st w)
        \<or> (\<exists>d. search_step env st w = JObj d \<and> \<not> truthy (dict_get d ''matches'' JNull))
      \<longrightarrow> handle_call_tool rt env name (Some args) w
          = (text_result (''Could not find station: '' @ st),
             w\<lparr>sent := sent w @ [search_request env st]\<rparr>))
   \<and> (search_step env st w = JObj d
        \<and> map_of d ''matches'' = Some (JArr (JObj m # rest))
        \<and> map_of m ''id'' = Some sid
      \<longrightarrow> sent (snd (handle_call_tool rt env name (Some args) w))
          = sent w @ [search_request env st,
                      tfl_request env
                        (''StopPoint/'' @ py_str rt sid
                         @ (if name = ''get-arrivals'' then ''/Arrivals'' else [])) None])"
proof -
  have ne: "args \<noteq> []"
    using assms(2,3) by (auto simp: dict_get_def strip_def)
  show ?thesis
  proof (intro conjI impI)
    assume "\<not> truthy (search_step env st w)
        \<or> (\<exists>d. search_step env st w = JObj d \<and> \<not> truthy (dict_get d ''matches'' JNull))"
    then have nm: "no_matches (search_step env st w) = Inr True"
      by (rule no_matches_True)
    from assms(1) show "handle_call_tool rt env name (Some args) w
          = (text_result (''Could not find station: '' @ st),
             w\<lparr>sent := sent w @ [search_request env st]\<rparr>)"
    proof
      assume "name = ''get-arrivals''"
      then show ?thesis
        using get_arrivals_not_found [OF assms(2,3) nm]
        by (simp only: handle_get_arrivals [OF ne])
    next
      assume "name = ''get-station-info''"
      then show ?thesis
        using get_station_info_not_found [OF assms(2,3) nm]
        by (simp only: handle_get_station_info [OF ne])
    qed
  next
    assume "search_step env st w = JObj d
        \<and> map_of d ''matches'' = Some (JArr (JObj m # rest))
        \<and> map_of m ''id'' = Some sid"
    then have f: "no_matches (search_step env st w) = Inr False
        \<and> first_match_id (search_step env st w) = Inr sid"
      by (elim conjE) (rule first_match_found)
    from assms(1) show "sent (snd (handle_call_tool rt env name (Some args) w))
          = sent w @ [search_request env st,
                      tfl_request env
                        (''StopPoint/'' @ py_str rt sid
                         @ (if name = ''get-arrivals'' then ''/Arrivals'' else [])) None]"
    proof
      assume n: "name = ''get-arrivals''"
      show ?thesis
        using get_arrivals_found [OF assms(2,3) conjunct1 [OF f] conjunct2 [OF f], of rt]
        unfolding n by (simp add: handle_get_arrivals [OF ne])
    next
      assume n: "name = ''get-station-info''"
      show ?thesis
        using get_station_info_found [OF assms(2,3) conjunct1 [OF f] conjunct2 [OF f], of rt]
        unfolding n by (simp add: handle_get_station_info [OF ne])
    qed
  qed
qed

theorem resolve_by_search_witness:
  "handle_call_tool plain_runtime
     (scripted [Response 200 (Some (JObj [(''matches'', JArr [])]))] 0 0)
     ''get-station-info'' (Some [(''station'', JStr '' Nowhere '')]) fresh
   = (text_result ''Could not find station: Nowhere'',
      fresh\<lparr>sent := [\<lparr>url = ''https://api.tfl.gov.uk/StopPoint/Search/Nowhere'',
                        params = [(''app_key'', JStr ''key''), (''app_id'', JStr ''id''),
                                  (''modes'', JStr ''tube,overground,dlr'')]\<rparr>]\<rparr>)
   \<and> map url (sent (snd (handle_call_tool plain_runtime
          (scripted [Response 200 (Some found_victoria), NoResponse] 0 0)
          ''get-arrivals'' (Some [(''station'', JStr ''Victoria'')]) fresh)))
     = [''https://api.tfl.gov.uk/StopPoint/Search/Victoria'',
        ''https://api.tfl.gov.uk/StopPoint/940GZZLUVIC/Arrivals'']"
  using resolve_by_search [where name = "''get-station-info''" and rt = plain_runtime
          and env = "scripted [Response 200 (Some (JObj [(''matches'', JArr [])]))] 0 0"
          and args = "[(''station'', JStr '' Nowhere '')]" and st = "''Nowhere''" and w = fresh]
        resolve_by_search [where name = "''get-arrivals''" and rt = plain_runtime
          and env = "scripted [Response 200 (Some found_victoria), NoResponse] 0 0"
          and args = "[(''station'', JStr ''Victoria'')]" and st = "''Victoria''" and w = fresh
          and d = "[(''matches'', JArr [JObj [(''id'', JStr ''940GZZLUVIC'')],
                              JObj [(''id'', JStr ''910GVICTRIC'')]])]"
          and m = "[(''id'', JStr ''940GZZLUVIC'')]"
          and rest = "[JObj [(''id'', JStr ''910GVICTRIC'')]]" and sid = "JStr ''940GZZLUVIC''"]
  by (simp add: dict_get_def strip_def py_isspace_def search_step_def search_request_def
      make_tfl_request_def try_get_def tfl_request_def dict_update_def TFL_API_BASE_def
      MODES_def opt_str_def scripted_def fresh_def found_victoria_def py_str_def)

section \<open>Two invocations of a formatter\<close>

text \<open>
  Claim C4, as amended. The line-status, bike-point, station-info and nearby-stop
  formatters are deterministic: two invocations on the same record, at any two moments
  and in any two environments, yield the same text (or the same exception). The arrival
  formatter reads the clock: two invocations on the same record yield the same text
  whenever the clock shows the same time at both.
\<close>

theorem formatters_deterministic:
  "(f \<noteq> Arrival \<longrightarrow>
      fst (run_formatter f rt env x w) = fst (run_formatter f rt env' x w'))
   \<and> (clock env (reads w) = clock env' (reads w') \<longrightarrow>
      fst (run_formatter Arrival rt env x w) = fst (run_formatter Arrival rt env' x w'))"
proof (intro conjI impI)
  assume "f \<noteq> Arrival"
  then show "fst (run_formatter f rt env x w) = fst (run_formatter f rt env' x w')"
    by (cases f) (simp_all add: run_formatter_def)
next
  assume "clock env (reads w) = clock env' (reads w')"
  then show "fst (run_formatter Arrival rt env x w) = fst (run_formatter Arrival rt env' x w')"
    unfolding run_formatter_def formatter.case by (rule format_arrival_clock)
qed

theorem formatters_deterministic_witness:
  "fst (run_formatter NearbyStop plain_runtime (scripted [] 0 1)
          (JObj [(''commonName'', JStr ''Victoria'')]) fresh)
     = fst (run_formatter NearbyStop plain_runtime (scripted [] 5 7)
          (JObj [(''commonName'', JStr ''Victoria'')]) (fresh\<lparr>reads := 3\<rparr>))
   \<and> fst (run_formatter Arrival plain_runtime (scripted [] 0 2)
          (JObj [(''expectedArrival'', JStr ''2024-01-01T00:10:00Z'')]) (fresh\<lparr>reads := 3\<rparr>))
     = fst (run_formatter Arrival plain_runtime (scripted [] 0 3)
          (JObj [(''expectedArrival'', JStr ''2024-01-01T00:10:00Z'')]) (fresh\<lparr>reads := 2\<rparr>))"
  using formatters_deterministic [where f = NearbyStop and rt = plain_runtime
          and env = "scripted [] 0 1" and env' = "scripted [] 5 7"
          and x = "JObj [(''commonName'', JStr ''Victoria'')]"
          and w = fresh and w' = "fresh\<lparr>reads := 3\<rparr>"]
        formatters_deterministic [where f = Arrival and rt = plain_runtime
          and env = "scripted [] 0 2" and env' = "scripted [] 0 3"
          and x = "JObj [(''expectedArrival'', JStr ''2024-01-01T00:10:00Z'')]"
          and w = "fresh\<lparr>reads := 3\<rparr>" and w' = "fresh\<lparr>reads := 2\<rparr>"]
  by (simp add: scripted_def fresh_def)

text \<open>
  The claim as stated fails for the arrival formatter: invoked twice on the same record,
  five minutes apart, it says \<^verbatim>\<open>10 minutes\<close> and then \<^verbatim>\<open>5 minutes\<close>.
\<close>

theorem arrival_formatter_counterexample:
  "fst (run_formatter Arrival plain_runtime (scripted [] 1704067200000000 300000000)
          (JObj [(''lineName'', JStr ''Victoria''),
                 (''expectedArrival'', JStr ''2024-01-01T00:10:00Z'')]) fresh)
     = Inr ''Line: Victoria\<newline>Platform: Unknown Platform\<newline>Destination: Unknown Destination\<newline>Arrival: 10 minutes\<newline>---''
   \<and> fst (run_formatter Arrival plain_runtime (scripted [] 1704067200000000 300000000)
          (JObj [(''lineName'', JStr ''Victoria''),
                 (''expectedArrival'', JStr ''2024-01-01T00:10:00Z'')])
          (snd (run_formatter Arrival plain_runtime (scripted [] 1704067200000000 300000000)
                  (JObj [(''lineName'', JStr ''Victoria''),
                         (''expectedArrival'', JStr ''2024-01-01T00:10:00Z'')]) fresh)))
     = Inr ''Line: Victoria\<newline>Platform: Unknown Platform\<newline>Destination: Unknown Destination\<newline>Arrival: 5 minutes\<newline>---''"
  by code_simp

section \<open>Formatters on records with missing fields\<close>

text \<open>
  Claim C3, as amended. On every record whose fields are each missing or of the type the
  formatter is written for (\<open>line_ok\<close>, \<open>bike_ok\<close>, \<open>station_ok\<close>, \<open>stop_ok\<close>), and for the
  arrival formatter on every record whatsoever, a formatter returns a string without
  raising, and the string is the one given here: every field stands where the source puts
  it, and a missing field is rendered by the default of the code. In particular, whatever
  the other fields hold: a missing \<^verbatim>\<open>lineStatuses\<close> renders as \<^verbatim>\<open>Status: Unknown\<close>; a missing
  name as \<^verbatim>\<open>Unknown Line\<close>, \<^verbatim>\<open>Unknown Location\<close> or \<^verbatim>\<open>Unknown Station\<close>; a missing
  \<^verbatim>\<open>platformName\<close>, \<^verbatim>\<open>destinationName\<close> or \<^verbatim>\<open>expectedArrival\<close> as \<^verbatim>\<open>Unknown Platform\<close>,
  \<^verbatim>\<open>Unknown Destination\<close> or \<^verbatim>\<open>Time unknown\<close>; properties without \<^verbatim>\<open>NbBikes\<close> and
  \<^verbatim>\<open>NbEmptyDocks\<close> as \<^verbatim>\<open>Unknown\<close>; a missing \<^verbatim>\<open>distance\<close> as \<^verbatim>\<open>0m\<close>; missing lists as empty
  text. The last five equations are the texts on the record without any field.
\<close>

theorem formatters_on_typed_records:
  "(fst (format_arrival rt env (JObj r) w)
   = Inr (''Line: '' @ py_str rt (dict_get r ''lineName'' (JStr ''Unknown Line''))
          @ ''\<newline>Platform: ''
          @ py_str rt (dict_get r ''platformName'' (JStr ''Unknown Platform''))
          @ ''\<newline>Destination: ''
          @ py_str rt (dict_get r ''destinationName'' (JStr ''Unknown Destination''))
          @ ''\<newline>Arrival: '' @ fst (arrival_time_desc rt env (JObj r) w)
          @ ''\<newline>---''))
   \<and> (line_ok r
      \<longrightarrow> format_line_status rt (JObj r)
         = Inr (''Line: '' @ py_str rt (dict_get r ''name'' (JStr ''Unknown Line''))
                @ ''\<newline>Status: ''
                @ py_str rt (dict_get (first_status r) ''statusSeverityDescription''
                               (JStr ''Unknown''))
                @ (if truthy (dict_get (first_status r) ''reason'' (JStr []))
                   then ''\<newline>Reason: ''
                        @ py_str rt (dict_get (first_status r) ''reason'' (JStr []))
                   else [])
                @ ''\<newline>---''))
   \<and> (bike_ok r
      \<longrightarrow> format_bike_point rt (JObj r)
         = Inr (''Location: ''
                @ py_str rt (dict_get r ''commonName'' (JStr ''Unknown Location''))
                @ ''\<newline>Bikes Available: ''
                @ py_str rt (property_value ''NbBikes''
                     (list_items (dict_get r ''additionalProperties'' (JArr [])))
                     (JStr ''Unknown''))
                @ ''\<newline>Empty Docks: ''
                @ py_str rt (property_value ''NbEmptyDocks''
                     (list_items (dict_get r ''additionalProperties'' (JArr [])))
                     (JStr ''Unknown''))
                @ ''\<newline>---''))
   \<and> (station_ok r
      \<longrightarrow> format_station_info rt (JObj r)
         = Inr (''Station: ''
                @ py_str rt (dict_get r ''commonName'' (JStr ''Unknown Station''))
                @ ''\<newline>Transport Modes: ''
                @ join '', '' (map the_str (list_items (dict_get r ''modes'' (JArr []))))
                @ ''\<newline>Zones: ''
                @ join '', '' (map (py_str rt) (list_items (dict_get r ''zones'' (JArr []))))
                @ ''\<newline>Lines: ''
                @ join '', '' (entry_strs ''name'' (list_items (dict_get r ''lines'' (JArr []))))
                @ ''\<newline>''
                @ (if of_category ''Facility''
                        (list_items (dict_get r ''additionalProperties'' (JArr []))) = []
                   then []
                   else ''Facilities: ''
                        @ join '', '' (entry_strs ''key'' (of_category ''Facility''
                            (list_items (dict_get r ''additionalProperties'' (JArr [])))))
                        @ ''\<newline>'')
                @ (if of_category ''Accessibility''
                        (list_items (dict_get r ''additionalProperties'' (JArr []))) = []
                   then []
                   else ''Accessibility: ''
                        @ join '', '' (entry_strs ''key'' (of_category ''Accessibility''
                            (list_items (dict_get r ''additionalProperties'' (JArr [])))))
                        @ ''\<newline>'')
                @ ''---''))
   \<and> (stop_ok r
      \<longrightarrow> format_nearby_stop rt (JObj r)
         = Inr (''Stop: '' @ py_str rt (dict_get r ''commonName'' (JStr ''Unknown Location''))
                @ ''\<newline>Distance: '' @ number_0f rt (dict_get r ''distance'' (JInt 0))
                @ ''m\<newline>Modes: ''
                @ join '', '' (map the_str (list_items (dict_get r ''modes'' (JArr []))))
                @ ''\<newline>Lines: ''
                @ join '', '' (entry_strs ''name'' (list_items (dict_get r ''lines'' (JArr []))))
                @ ''\<newline>---''))
   \<and> (map_of r ''lineStatuses'' = None
      \<longrightarrow> format_line_status rt (JObj r)
         = Inr (''Line: '' @ py_str rt (dict_get r ''name'' (JStr ''Unknown Line''))
                @ ''\<newline>Status: Unknown\<newline>---''))
   \<and> (map_of r ''name'' = None \<and> line_ok r
      \<longrightarrow> format_line_status rt (JObj r)
         = Inr (''Line: Unknown Line\<newline>Status: ''
                @ py_str rt (dict_get (first_status r) ''statusSeverityDescription''
                               (JStr ''Unknown''))
                @ (if truthy (dict_get (first_status r) ''reason'' (JStr []))
                   then ''\<newline>Reason: ''
                        @ py_str rt (dict_get (first_status r) ''reason'' (JStr []))
                   else [])
                @ ''\<newline>---''))
   \<and> (map_of r ''lineName'' = None
      \<longrightarrow> fst (format_arrival rt env (JObj r) w)
         = Inr (''Line: Unknown Line\<newline>Platform: ''
                @ py_str rt (dict_get r ''platformName'' (JStr ''Unknown Platform''))
                @ ''\<newline>Destination: ''
                @ py_str rt (dict_get r ''destinationName'' (JStr ''Unknown Destination''))
                @ ''\<newline>Arrival: '' @ fst (arrival_time_desc rt env (JObj r) w)
                @ ''\<newline>---''))
   \<and> (map_of r ''platformName'' = None
      \<longrightarrow> fst (format_arrival rt env (JObj r) w)
         = Inr (''Line: '' @ py_str rt (dict_get r ''lineName'' (JStr ''Unknown Line''))
                @ ''\<newline>Platform: Unknown Platform\<newline>Destination: ''
                @ py_str rt (dict_get r ''destinationName'' (JStr ''Unknown Destination''))
                @ ''\<newline>Arrival: '' @ fst (arrival_time_desc rt env (JObj r) w)
                @ ''\<newline>---''))
   \<and> (map_of r ''destinationName'' = None
      \<longrightarrow> fst (format_arrival rt env (JObj r) w)
         = Inr (''Line: '' @ py_str rt (dict_get r ''lineName'' (JStr ''Unknown Line''))
                @ ''\<newline>Platform: ''
                @ py_str rt (dict_get r ''platformName'' (JStr ''Unknown Platform''))
                @ ''\<newline>Destination: Unknown Destination\<newline>Arrival: ''
                @ fst (arrival_time_desc rt env (JObj r) w)
                @ ''\<newline>---''))
   \<and> (map_of r ''expectedArrival'' = None
      \<longrightarrow> fst (format_arrival rt env (JObj r) w)
         = Inr (''Line: '' @ py_str rt (dict_get r ''lineName'' (JStr ''Unknown Line''))
                @ ''\<newline>Platform: ''
                @ py_str rt (dict_get r ''platformName'' (JStr ''Unknown Platform''))
                @ ''\<newline>Destination: ''
                @ py_str rt (dict_get r ''destinationName'' (JStr ''Unknown Destination''))
                @ ''\<newline>Arrival: Time unknown\<newline>---''))
   \<and> (map_of r ''commonName'' = None \<and> bike_ok r
      \<longrightarrow> format_bike_point rt (JObj r)
         = Inr (''Location: Unknown Location\<newline>Bikes Available: ''
                @ py_str rt (property_value ''NbBikes''
                     (list_items (dict_get r ''additionalProperties'' (JArr [])))
                     (JStr ''Unknown''))
                @ ''\<newline>Empty Docks: ''
                @ py_str rt (property_value ''NbEmptyDocks''
                     (list_items (dict_get r ''additionalProperties'' (JArr [])))
                     (JStr ''Unknown''))
                @ ''\<newline>---''))
   \<and> (list_all (\<lambda>p. dict_get (dict_fields p) ''key'' JNull \<noteq> JStr ''NbBikes''
                        \<and> dict_get (dict_fields p) ''key'' JNull \<noteq> JStr ''NbEmptyDocks'')
             (list_items (dict_get r ''additionalProperties'' (JArr []))) \<and> bike_ok r
      \<longrightarrow> format_bike_point rt (JObj r)
         = Inr (''Location: ''
                @ py_str rt (dict_get r ''commonName'' (JStr ''Unknown Location''))
                @ ''\<newline>Bikes Available: Unknown\<newline>Empty Docks: Unknown\<newline>---''))
   \<and> (map_of r ''commonName'' = None \<and> station_ok r
      \<longrightarrow> format_station_info rt (JObj r)
         = Inr (''Station: Unknown Station\<newline>Transport Modes: ''
                @ join '', '' (map the_str (list_items (dict_get r ''modes'' (JArr []))))
                @ ''\<newline>Zones: ''
                @ join '', '' (map (py_str rt) (list_items (dict_get r ''zones'' (JArr []))))
                @ ''\<newline>Lines: ''
                @ join '', '' (entry_strs ''name'' (list_items (dict_get r ''lines'' (JArr []))))
                @ ''\<newline>''
                @ (if of_category ''Facility''
                        (list_items (dict_get r ''additionalProperties'' (JArr []))) = []
                   then []
                   else ''Facilities: ''
                        @ join '', '' (entry_strs ''key'' (of_category ''Facility''
                            (list_items (dict_get r ''additionalProperties'' (JArr [])))))
                        @ ''\<newline>'')
                @ (if of_category ''Accessibility''
                        (list_items (dict_get r ''additionalProperties'' (JArr []))) = []
                   then []
                   else ''Accessibility: ''
                        @ join '', '' (entry_strs ''key'' (of_category ''Accessibility''
                            (list_items (dict_get r ''additionalProperties'' (JArr [])))))
                        @ ''\<newline>'')
                @ ''---''))
   \<and> (map_of r ''modes'' = None \<and> map_of r ''zones'' = None \<and> map_of r ''lines'' = None
           \<and> map_of r ''additionalProperties'' = None
      \<longrightarrow> format_station_info rt (JObj r)
         = Inr (''Station: ''
                @ py_str rt (dict_get r ''commonName'' (JStr ''Unknown Station''))
                @ ''\<newline>Transport Modes: \<newline>Zones: \<newline>Lines: \<newline>---''))
   \<and> (map_of r ''commonName'' = None \<and> stop_ok r
      \<longrightarrow> format_nearby_stop rt (JObj r)
         = Inr (''Stop: Unknown Location\<newline>Distance: ''
                @ number_0f rt (dict_get r ''distance'' (JInt 0))
                @ ''m\<newline>Modes: ''
                @ join '', '' (map the_str (list_items (dict_get r ''modes'' (JArr []))))
                @ ''\<newline>Lines: ''
                @ join '', '' (entry_strs ''name'' (list_items (dict_get r ''lines'' (JArr []))))
                @ ''\<newline>---''))
   \<and> (map_of r ''distance'' = None \<and> stop_ok r
      \<longrightarrow> format_nearby_stop rt (JObj r)
         = Inr (''Stop: '' @ py_str rt (dict_get r ''commonName'' (JStr ''Unknown Location''))
                @ ''\<newline>Distance: 0m\<newline>Modes: ''
                @ join '', '' (map the_str (list_items (dict_get r ''modes'' (JArr []))))
                @ ''\<newline>Lines: ''
                @ join '', '' (entry_strs ''name'' (list_items (dict_get r ''lines'' (JArr []))))
                @ ''\<newline>---''))
   \<and> (map_of r ''modes'' = None \<and> map_of r ''lines'' = None \<and> stop_ok r
      \<longrightarrow> format_nearby_stop rt (JObj r)
         = Inr (''Stop: '' @ py_str rt (dict_get r ''commonName'' (JStr ''Unknown Location''))
                @ ''\<newline>Distance: '' @ number_0f rt (dict_get r ''distance'' (JInt 0))
                @ ''m\<newline>Modes: \<newline>Lines: \<newline>---''))
   \<and> (format_line_status rt (JObj []) = Inr ''Line: Unknown Line\<newline>Status: Unknown\<newline>---'')
   \<and> (fst (format_arrival rt env (JObj []) w)
     = Inr ''Line: Unknown Line\<newline>Platform: Unknown Platform\<newline>Destination: Unknown Destination\<newline>Arrival: Time unknown\<newline>---'')
   \<and> (format_bike_point rt (JObj [])
     = Inr ''Location: Unknown Location\<newline>Bikes Available: Unknown\<newline>Empty Docks: Unknown\<newline>---'')
   \<and> (format_station_info rt (JObj [])
     = Inr ''Station: Unknown Station\<newline>Transport Modes: \<newline>Zones: \<newline>Lines: \<newline>---'')
   \<and> (format_nearby_stop rt (JObj [])
     = Inr ''Stop: Unknown Location\<newline>Distance: 0m\<newline>Modes: \<newline>Lines: \<newline>---'')"
  apply (intro conjI impI)
  apply (rule format_arrival_text)
  apply (erule format_line_status_text)
  apply (erule format_bike_point_text)
  apply (erule format_station_info_text)
  apply (erule format_nearby_stop_text)
  apply (erule line_statuses_missing)
  apply (erule line_name_missing)
  apply (erule arrival_line_missing)
  apply (erule arrival_platform_missing)
  apply (erule arrival_destination_missing)
  apply (erule arrival_expected_missing)
  apply (erule bike_name_missing)
  apply (erule bike_properties_missing)
  apply (erule station_name_missing)
  apply (erule station_lists_missing)
  apply (erule stop_name_missing)
  apply (erule stop_distance_missing)
  apply (erule stop_lists_missing)
  apply (rule format_line_status_empty)
  apply (rule format_arrival_empty)
  apply (rule format_bike_point_empty)
  apply (rule format_station_info_empty)
  apply (rule format_nearby_stop_empty)
  done

theorem formatters_on_typed_records_witness:
  "format_line_status plain_runtime (JObj [(''name'', JStr ''Victoria'')])
     = Inr ''Line: Victoria\<newline>Status: Unknown\<newline>---''
   \<and> fst (format_arrival plain_runtime (scripted [] 0 0)
            (JObj [(''lineName'', JStr ''Victoria'')]) fresh)
     = Inr ''Line: Victoria\<newline>Platform: Unknown Platform\<newline>Destination: Unknown Destination\<newline>Arrival: Time unknown\<newline>---''
   \<and> format_bike_point plain_runtime
        (JObj [(''commonName'', JStr ''Soho Square''),
               (''additionalProperties'',
                JArr [JObj [(''key'', JStr ''NbBikes''), (''value'', JStr ''7'')]])])
     = Inr ''Location: Soho Square\<newline>Bikes Available: 7\<newline>Empty Docks: Unknown\<newline>---''
   \<and> format_station_info plain_runtime (JObj [(''modes'', JArr [JStr ''tube'', JStr ''bus''])])
     = Inr ''Station: Unknown Station\<newline>Transport Modes: tube, bus\<newline>Zones: \<newline>Lines: \<newline>---''
   \<and> format_nearby_stop plain_runtime (JObj [(''commonName'', JStr ''Victoria'')])
     = Inr ''Stop: Victoria\<newline>Distance: 0m\<newline>Modes: \<newline>Lines: \<newline>---''"
  using formatters_on_typed_records [where rt = plain_runtime and env = "scripted [] 0 0"
          and w = fresh and r = "[(''name'', JStr ''Victoria'')]"]
        formatters_on_typed_records [where rt = plain_runtime and env = "scripted [] 0 0"
          and w = fresh and r = "[(''lineName'', JStr ''Victoria'')]"]
        formatters_on_typed_records [where rt = plain_runtime and env = "scripted [] 0 0"
          and w = fresh
          and r = "[(''commonName'', JStr ''Soho Square''),
               (''additionalProperties'',
                JArr [JObj [(''key'', JStr ''NbBikes''), (''value'', JStr ''7'')]])]"]
        formatters_on_typed_records [where rt = plain_runtime and env = "scripted [] 0 0"
          and w = fresh and r = "[(''modes'', JArr [JStr ''tube'', JStr ''bus''])]"]
        formatters_on_typed_records [where rt = plain_runtime and env = "scripted [] 0 0"
          and w = fresh and r = "[(''commonName'', JStr ''Victoria'')]"]
  by (simp add: line_ok_def bike_ok_def station_ok_def stop_ok_def field_ok_def dict_get_def
      py_str_def first_status_def entry_strs_def of_category_def number_0f_def show_int_0
      arrival_time_desc_def fromisoformat_def replace_Z_def)

text \<open>
  The claim as stated fails on a malformed field: a \<^verbatim>\<open>lineStatuses\<close> list whose first entry
  is a str, not an object, makes the line-status formatter raise \<^verbatim>\<open>AttributeError\<close>.
\<close>

theorem malformed_field_counterexample:
  "format_line_status plain_runtime
     (JObj [(''name'', JStr ''Victoria''), (''lineStatuses'', JArr [JStr ''Good Service''])])
   = Inl AttributeError"
  by (simp add: format_line_status_def dict_get_def)

section \<open>The order and the number of the arrivals\<close>




end
